theory Spec2Isabelle
  imports Complex_Main "HOL-Library.AList" "HOL-Library.Sublist" "HOL-Library.Log_Nat"
begin

section \<open>Python values\<close>

text \<open>
  The program passes untyped data around: whatever \<^verbatim>\<open>json.loads\<close> produced, and
  dictionaries built from it. A value is modelled as a JSON value. A dictionary is an
  association list read with \<open>map_of\<close> and written with \<open>AList.update\<close> (a new key is
  appended, as Python keeps insertion order). A number is an integer or a float; a float
  is given by the exact value of the double, a rational number. Infinities, NaN and
  numbers outside the range of the normal doubles are not values of the model. A string
  is a list of characters, each a code point below 256.
\<close>

datatype json =
    JNull
  | JBool bool
  | JInt int
  | JFloat rat
  | JStr string
  | JArr "json list"
  | JObj "(string \<times> json) list"

type_synonym pydict = "(string \<times> json) list"

text \<open>
  An exception is its class and the text that \<^verbatim>\<open>str(e)\<close> gives. \<open>ExternalError\<close>
  stands for an exception of any other class, raised by a service or by the library.
  (\<^verbatim>\<open>json.JSONDecodeError\<close> is a subclass of \<^verbatim>\<open>ValueError\<close>.)
\<close>

datatype py_error =
    TypeError string
  | ValueError string
  | KeyError string
  | AttributeError string
  | JSONDecodeError string
  | ExpatError string
  | ExternalError string

fun exc_text :: "py_error \<Rightarrow> string" where
  "exc_text (TypeError msg) = msg"
| "exc_text (ValueError msg) = msg"
| "exc_text (KeyError msg) = msg"
| "exc_text (AttributeError msg) = msg"
| "exc_text (JSONDecodeError msg) = msg"
| "exc_text (ExpatError msg) = msg"
| "exc_text (ExternalError msg) = msg"

text \<open>\<^verbatim>\<open>type(v).__name__\<close>, and a text between single quotes, as the messages have them.\<close>

fun type_name :: "json \<Rightarrow> string" where
  "type_name JNull = ''NoneType''"
| "type_name (JBool b) = ''bool''"
| "type_name (JInt i) = ''int''"
| "type_name (JFloat r) = ''float''"
| "type_name (JStr s) = ''str''"
| "type_name (JArr xs) = ''list''"
| "type_name (JObj d) = ''dict''"

definition quoted :: "string \<Rightarrow> string" where
  "quoted s = [CHR 0x27] @ s @ [CHR 0x27]"

definition unhashable :: "json \<Rightarrow> py_error" where
  "unhashable v = TypeError (''unhashable type: '' @ quoted (type_name v))"

definition no_attribute :: "json \<Rightarrow> string \<Rightarrow> py_error" where
  "no_attribute v name =
     AttributeError (quoted (type_name v) @ '' object has no attribute '' @ quoted name)"

text \<open>Python truth value of a value (\<^verbatim>\<open>if x\<close>, \<^verbatim>\<open>not x\<close>).\<close>

fun truthy :: "json \<Rightarrow> bool" where
  "truthy JNull = False"
| "truthy (JBool b) = b"
| "truthy (JInt i) = (i \<noteq> 0)"
| "truthy (JFloat r) = (r \<noteq> 0)"
| "truthy (JStr s) = (s \<noteq> [])"
| "truthy (JArr xs) = (xs \<noteq> [])"
| "truthy (JObj d) = (d \<noteq> [])"

text \<open>Lists and dictionaries are unhashable: using one as a dictionary key raises.\<close>

fun hashable :: "json \<Rightarrow> bool" where
  "hashable (JArr xs) = False"
| "hashable (JObj d) = False"
| "hashable v = True"

text \<open>\<^verbatim>\<open>d.get(key, default)\<close> on a dictionary with string keys.\<close>

definition dict_get :: "pydict \<Rightarrow> string \<Rightarrow> json \<Rightarrow> json" where
  "dict_get d k dflt = (case map_of d k of Some v \<Rightarrow> v | None \<Rightarrow> dflt)"

text \<open>
  \<^verbatim>\<open>table.get(v, default)\<close> where the key \<open>v\<close> is an arbitrary value and the table has
  string keys: an unhashable key raises TypeError, a key that is not a string is absent.
\<close>

definition table_get :: "(string \<times> 'a) list \<Rightarrow> json \<Rightarrow> 'a \<Rightarrow> py_error + 'a" where
  "table_get t v dflt =
     (if \<not> hashable v then Inl (unhashable v)
      else case v of
             JStr s \<Rightarrow> (case map_of t s of Some x \<Rightarrow> Inr x | None \<Rightarrow> Inr dflt)
           | _ \<Rightarrow> Inr dflt)"

section \<open>Configuration\<close>

text \<open>
  The entries of \<^verbatim>\<open>AICodeReviewer._load_config\<close> that the modelled functions read.
\<close>

record config =
  languages :: "string list"
  severity_threshold :: string
  include_patterns :: "string list"
  exclude_patterns :: "string list"
  ci_commit_sha :: "string option"

section \<open>Comment gate\<close>

definition severity_levels :: "(string \<times> nat) list" where
  "severity_levels = [(''low'', 1), (''medium'', 2), (''high'', 3)]"

text \<open>\<^verbatim>\<open>AICodeReviewer._should_post_comment\<close>, ai_reviewer.py lines 219-224.\<close>

definition should_post_comment :: "config \<Rightarrow> pydict \<Rightarrow> py_error + bool" where
  "should_post_comment cfg comment =
     (case table_get severity_levels (dict_get comment ''severity'' (JStr ''low'')) 1 of
        Inl e \<Rightarrow> Inl e
      | Inr comment_severity \<Rightarrow>
          (case table_get severity_levels (JStr (severity_threshold cfg)) 2 of
             Inl e \<Rightarrow> Inl e
           | Inr threshold_severity \<Rightarrow> Inr (comment_severity \<ge> threshold_severity)))"

text \<open>
  The ordering of the specification, \<open>low < medium < high\<close>, written independently of
  the table above.
\<close>

definition spec_rank :: "string \<Rightarrow> nat" where
  "spec_rank s = (if s = ''low'' then 0 else if s = ''medium'' then 1 else 2)"

definition spec_threshold :: "string \<Rightarrow> string" where
  "spec_threshold t = (if t \<in> {''low'', ''medium'', ''high''} then t else ''medium'')"

section \<open>Strings\<close>

text \<open>
  The white space of \<^verbatim>\<open>str.strip\<close> and of the regular expression class \<^verbatim>\<open>\s\<close> is,
  among the code points below 256: tab, line feed, vertical tab, form feed, carriage
  return, the four separators 0x1C-0x1F, the space, the next-line character 0x85 and the
  no-break space 0xA0.
\<close>

definition is_space :: "char \<Rightarrow> bool" where
  "is_space c = ((of_char c :: nat) \<in> {9, 10, 11, 12, 13, 28, 29, 30, 31, 32, 133, 160})"

definition strip :: "string \<Rightarrow> string" where
  "strip s = rev (dropWhile is_space (rev (dropWhile is_space s)))"

text \<open>
  \<^verbatim>\<open>str.lower\<close>: the letters A-Z and, above the ASCII range, the capital letters
  0xC0-0xDE (0xD7, the multiplication sign, is not one) have a lower-case form, 32
  code points further.
\<close>

definition upper_letters :: string where
  "upper_letters =
     [CHR 0x41, CHR 0x42, CHR 0x43, CHR 0x44, CHR 0x45, CHR 0x46, CHR 0x47, CHR 0x48,
      CHR 0x49, CHR 0x4A, CHR 0x4B, CHR 0x4C, CHR 0x4D, CHR 0x4E, CHR 0x4F, CHR 0x50,
      CHR 0x51, CHR 0x52, CHR 0x53, CHR 0x54, CHR 0x55, CHR 0x56, CHR 0x57, CHR 0x58,
      CHR 0x59, CHR 0x5A, CHR 0xC0, CHR 0xC1, CHR 0xC2, CHR 0xC3, CHR 0xC4, CHR 0xC5,
      CHR 0xC6, CHR 0xC7, CHR 0xC8, CHR 0xC9, CHR 0xCA, CHR 0xCB, CHR 0xCC, CHR 0xCD,
      CHR 0xCE, CHR 0xCF, CHR 0xD0, CHR 0xD1, CHR 0xD2, CHR 0xD3, CHR 0xD4, CHR 0xD5,
      CHR 0xD6, CHR 0xD8, CHR 0xD9, CHR 0xDA, CHR 0xDB, CHR 0xDC, CHR 0xDD, CHR 0xDE]"

definition lower_letters :: string where
  "lower_letters =
     [CHR 0x61, CHR 0x62, CHR 0x63, CHR 0x64, CHR 0x65, CHR 0x66, CHR 0x67, CHR 0x68,
      CHR 0x69, CHR 0x6A, CHR 0x6B, CHR 0x6C, CHR 0x6D, CHR 0x6E, CHR 0x6F, CHR 0x70,
      CHR 0x71, CHR 0x72, CHR 0x73, CHR 0x74, CHR 0x75, CHR 0x76, CHR 0x77, CHR 0x78,
      CHR 0x79, CHR 0x7A, CHR 0xE0, CHR 0xE1, CHR 0xE2, CHR 0xE3, CHR 0xE4, CHR 0xE5,
      CHR 0xE6, CHR 0xE7, CHR 0xE8, CHR 0xE9, CHR 0xEA, CHR 0xEB, CHR 0xEC, CHR 0xED,
      CHR 0xEE, CHR 0xEF, CHR 0xF0, CHR 0xF1, CHR 0xF2, CHR 0xF3, CHR 0xF4, CHR 0xF5,
      CHR 0xF6, CHR 0xF8, CHR 0xF9, CHR 0xFA, CHR 0xFB, CHR 0xFC, CHR 0xFD, CHR 0xFE]"

definition lower_char :: "char \<Rightarrow> char" where
  "lower_char c =
     (case map_of (zip upper_letters lower_letters) c of
        Some l \<Rightarrow> l
      | None \<Rightarrow> c)"

definition lower :: "string \<Rightarrow> string" where
  "lower s = map lower_char s"

text \<open>\<^verbatim>\<open>s.startswith(p)\<close>.\<close>

definition startswith :: "string \<Rightarrow> string \<Rightarrow> bool" where
  "startswith s p = (take (length p) s = p)"

text \<open>\<^verbatim>\<open>s.find(c)\<close> and \<^verbatim>\<open>s.rfind(c)\<close> for a single character; None stands for -1.\<close>

definition find_char :: "string \<Rightarrow> char \<Rightarrow> nat option" where
  "find_char s c = (if c \<in> set s then Some (length (takeWhile (\<lambda>x. x \<noteq> c) s)) else None)"

definition rfind_char :: "string \<Rightarrow> char \<Rightarrow> nat option" where
  "rfind_char s c =
     (if c \<in> set s then Some (length s - Suc (length (takeWhile (\<lambda>x. x \<noteq> c) (rev s))))
      else None)"

section \<open>Numbers\<close>

text \<open>
  A Python float is an IEEE 754 double: 53 significant bits, and every operation returns
  the double nearest to the exact result, a tie going to the double whose last bit is
  even. \<open>double_of x\<close> is that double for a rational \<open>x\<close>; \<open>ulp_exp x\<close> is the exponent
  \<open>e\<close> of its last bit, for which \<open>2 ^ 52 \<le> \<bar>x\<bar> / 2 ^ e < 2 ^ 53\<close>. (The range of the
  exponent is not bounded here: overflow to an infinity and the subnormal numbers are
  outside the model.)
\<close>

definition round_half_even :: "rat \<Rightarrow> int" where
  "round_half_even x =
     (let f = \<lfloor>x\<rfloor>; d = x - of_int f
      in if d < 1 / 2 then f
         else if 1 / 2 < d then f + 1
         else if even f then f else f + 1)"

definition pow2 :: "int \<Rightarrow> rat" where
  "pow2 e = (if 0 \<le> e then 2 ^ nat e else 1 / 2 ^ nat (- e))"

definition ulp_exp :: "rat \<Rightarrow> int" where
  "ulp_exp x =
     (case quotient_of \<bar>x\<bar> of
        (p, q) \<Rightarrow>
          (let e = bitlen p - bitlen q - 53
           in if \<bar>x\<bar> < 2 ^ 53 * pow2 e then e else e + 1))"

definition double_of :: "rat \<Rightarrow> rat" where
  "double_of x =
     (if x = 0 then 0
      else of_int (round_half_even (x / pow2 (ulp_exp x))) * pow2 (ulp_exp x))"

text \<open>
  The numbers of an arithmetic expression: an \<^verbatim>\<open>int\<close>, which is exact, or a \<^verbatim>\<open>float\<close>.
  In a mixed operation the integer is converted to a float first.
\<close>

datatype pynum = PInt int | PFloat rat

fun num_value :: "pynum \<Rightarrow> rat" where
  "num_value (PInt i) = of_int i"
| "num_value (PFloat r) = r"

fun as_float :: "pynum \<Rightarrow> rat" where
  "as_float (PInt i) = double_of (of_int i)"
| "as_float (PFloat r) = r"

fun num_type :: "pynum \<Rightarrow> string" where
  "num_type (PInt i) = ''int''"
| "num_type (PFloat r) = ''float''"

text \<open>\<^verbatim>\<open>a + b\<close>.\<close>

fun num_add :: "pynum \<Rightarrow> pynum \<Rightarrow> pynum" where
  "num_add (PInt a) (PInt b) = PInt (a + b)"
| "num_add a b = PFloat (double_of (as_float a + as_float b))"

text \<open>
  \<^verbatim>\<open>a / n\<close> for a length \<open>n > 0\<close>: the quotient of two integers is the double nearest to
  the exact quotient; a float is divided by the float of \<open>n\<close>.
\<close>

fun num_div :: "pynum \<Rightarrow> nat \<Rightarrow> pynum" where
  "num_div (PInt a) n = PFloat (double_of (of_int a / of_nat n))"
| "num_div (PFloat r) n = PFloat (double_of (r / double_of (of_nat n)))"

text \<open>
  \<^verbatim>\<open>round(a, 2)\<close>: an integer is returned as it is; a float is rounded, in its exact
  value, to the nearest multiple of 1/100 (a tie going to the even one), and the result
  is the double nearest to that decimal number.
\<close>

definition round2 :: "rat \<Rightarrow> rat" where
  "round2 x = of_int (round_half_even (x * 100)) / 100"

fun num_round2 :: "pynum \<Rightarrow> pynum" where
  "num_round2 (PInt a) = PInt a"
| "num_round2 (PFloat r) = PFloat (double_of (round2 r))"

section \<open>File filter\<close>

subsection \<open>Shell-style matching\<close>

text \<open>
  \<^verbatim>\<open>fnmatch.fnmatch(name, pat)\<close> of the Python standard library (CPython 3.11), on a
  POSIX system, where it does not fold case: \<^verbatim>\<open>*\<close> matches everything, \<^verbatim>\<open>?\<close> any
  single character, \<^verbatim>\<open>[seq]\<close> any character in \<open>seq\<close>, \<^verbatim>\<open>[!seq]\<close> any character
  not in \<open>seq\<close>; a \<^verbatim>\<open>[\<close> with no closing bracket is an ordinary character. The
  definitions follow \<^verbatim>\<open>fnmatch.translate\<close>, which turns the pattern into a regular
  expression.
\<close>

text \<open>
  Position of the bracket that closes a character class, in the text after the opening
  bracket: a leading \<^verbatim>\<open>!\<close> and a \<^verbatim>\<open>]\<close> right after it belong to the class.
\<close>

definition bracket_close :: "string \<Rightarrow> nat option" where
  "bracket_close p =
     (let j = (if p \<noteq> [] \<and> hd p = CHR ''!'' then 1 else 0);
          j' = (if j < length p \<and> p ! j = CHR '']'' then Suc j else j)
      in case find_char (drop j' p) CHR '']'' of
           None \<Rightarrow> None
         | Some k \<Rightarrow> Some (j' + k))"

text \<open>
  The text of a class that contains a hyphen is cut into chunks at the hyphens that
  stand for ranges: \<open>i\<close> is where the current chunk starts and \<open>k\<close> where the search
  for the next hyphen starts, three characters after the last one found.
\<close>

function chunk_loop :: "string \<Rightarrow> nat \<Rightarrow> nat \<Rightarrow> string list \<Rightarrow> string list \<times> nat" where
  "chunk_loop stuff i k chunks =
     (case find_char (drop k stuff) CHR ''-'' of
        None \<Rightarrow> (chunks, i)
      | Some d \<Rightarrow>
          chunk_loop stuff (k + d + 1) (k + d + 3) (chunks @ [take (k + d - i) (drop i stuff)]))"
  by pat_completeness auto
termination
proof (relation "measure (\<lambda>(stuff, i, k, chunks). length stuff - k)")
  show "wf (measure (\<lambda>(stuff, i, k, chunks). length stuff - k))"
    by simp
next
  fix stuff :: string and i k :: nat and chunks :: "string list" and d :: nat
  assume "find_char (drop k stuff) CHR ''-'' = Some d"
  then have "CHR ''-'' \<in> set (drop k stuff)"
    by (simp add: find_char_def split: if_splits)
  then have "k < length stuff"
    by (cases "k < length stuff") simp_all
  then show "((stuff, k + d + 1, k + d + 3, chunks @ [take (k + d - i) (drop i stuff)]),
              (stuff, i, k, chunks)) \<in> measure (\<lambda>(stuff, i, k, chunks). length stuff - k)"
    by simp
qed

definition chunks_of :: "string \<Rightarrow> string list" where
  "chunks_of stuff =
     (case chunk_loop stuff 0 (if stuff \<noteq> [] \<and> hd stuff = CHR ''!'' then 2 else 1) [] of
        (chunks, i) \<Rightarrow>
          if drop i stuff \<noteq> [] then chunks @ [drop i stuff]
          else if chunks = [] then [''-'']
          else butlast chunks @ [last chunks @ ''-''])"

text \<open>
  Empty ranges are removed, from the last pair of chunks to the first: when the end of
  a chunk is greater than the start of the next one, the two characters are dropped and
  the chunks merged.
\<close>

fun remove_empty_ranges :: "string list \<Rightarrow> string list" where
  "remove_empty_ranges [] = []"
| "remove_empty_ranges [c] = [c]"
| "remove_empty_ranges (c # c' # cs) =
     (case remove_empty_ranges (c' # cs) of
        [] \<Rightarrow> [c]
      | d # ds \<Rightarrow>
          if c \<noteq> [] \<and> d \<noteq> [] \<and> (of_char (last c) :: nat) > of_char (hd d)
          then (butlast c @ tl d) # ds
          else c # d # ds)"

text \<open>
  Membership in the regular expression class written by joining the chunks with
  hyphens: the last character of a chunk and the first of the next one bound a range,
  the other characters stand for themselves. (After the cutting and the merging above,
  a chunk that is followed by another one is never empty, and one between two others
  has at least two characters; the first branch of the last equation only makes the
  function total.)
\<close>

fun chunks_match :: "string list \<Rightarrow> char \<Rightarrow> bool" where
  "chunks_match [] x = False"
| "chunks_match [c] x = (x \<in> set c)"
| "chunks_match (c # d # cs) x =
     (if c = [] \<or> d = [] then x = CHR ''-'' \<or> x \<in> set c \<or> chunks_match (d # cs) x
      else x \<in> set (butlast c) \<or>
           ((of_char (last c) :: nat) \<le> of_char x \<and> (of_char x :: nat) \<le> of_char (hd d)) \<or>
           chunks_match (tl d # cs) x)"

text \<open>
  A class without hyphen is the set of its characters. A leading \<^verbatim>\<open>!\<close> of the text
  that results negates the class; the empty class matches nothing and its negation
  matches every character.
\<close>

definition in_class :: "string \<Rightarrow> char \<Rightarrow> bool" where
  "in_class stuff x =
     (let chunks = (if CHR ''-'' \<notin> set stuff then [stuff]
                    else remove_empty_ranges (chunks_of stuff))
      in case chunks of
           [] \<Rightarrow> False
         | c # cs \<Rightarrow>
             if c \<noteq> [] \<and> hd c = CHR ''!'' then \<not> chunks_match (tl c # cs) x
             else chunks_match chunks x)"

function fnmatch :: "string \<Rightarrow> string \<Rightarrow> bool" where
  "fnmatch [] [] = True"
| "fnmatch (x # xs) [] = False"
| "fnmatch s (c # p) =
     (if c = CHR ''*'' then
        (fnmatch s p \<or> (case s of [] \<Rightarrow> False | x # xs \<Rightarrow> fnmatch xs (c # p)))
      else
        (case s of
           [] \<Rightarrow> False
         | x # xs \<Rightarrow>
             if c = CHR ''?'' then fnmatch xs p
             else if c = CHR ''['' then
               (case bracket_close p of
                  None \<Rightarrow> x = c \<and> fnmatch xs p
                | Some j \<Rightarrow> in_class (take j p) x \<and> fnmatch xs (drop (Suc j) p))
             else x = c \<and> fnmatch xs p))"
  by pat_completeness auto
termination
  by (relation "measure (\<lambda>(s, p). length s + length p)") auto

text \<open>
  The exception of \<^verbatim>\<open>os.fspath\<close>, which \<^verbatim>\<open>fnmatch.fnmatch\<close> and \<^verbatim>\<open>pathlib.Path\<close>
  call, on a value that is not a string.
\<close>

definition not_a_path :: "json \<Rightarrow> py_error" where
  "not_a_path v = TypeError (''expected str, bytes or os.PathLike object, not '' @ type_name v)"

text \<open>\<^verbatim>\<open>AICodeReviewer._matches_patterns\<close>, ai_reviewer.py lines 129-132. A path that is
  not a string makes \<^verbatim>\<open>fnmatch\<close> raise as soon as one pattern is tried.\<close>

fun matches_patterns :: "json \<Rightarrow> string list \<Rightarrow> py_error + bool" where
  "matches_patterns file_path [] = Inr False"
| "matches_patterns file_path (pattern # patterns) =
     (if strip pattern = [] then matches_patterns file_path patterns
      else case file_path of
             JStr s \<Rightarrow>
               if fnmatch s (strip pattern) then Inr True
               else matches_patterns file_path patterns
           | _ \<Rightarrow> Inl (not_a_path file_path))"

subsection \<open>Languages\<close>

text \<open>\<^verbatim>\<open>s.split(sep)\<close> for a separator of one character.\<close>

fun split_on :: "char \<Rightarrow> string \<Rightarrow> string list" where
  "split_on sep [] = [[]]"
| "split_on sep (c # cs) =
     (if c = sep then [] # split_on sep cs
      else case split_on sep cs of
             [] \<Rightarrow> [[c]]
           | w # ws \<Rightarrow> (c # w) # ws)"

text \<open>
  \<^verbatim>\<open>pathlib.Path(p).suffix\<close> on POSIX: the final component of the path (empty components
  and \<^verbatim>\<open>.\<close> components are dropped), from its last dot on, when that dot is neither the
  first nor the last character of the component.
\<close>

definition path_name :: "string \<Rightarrow> string" where
  "path_name p =
     (case rev (filter (\<lambda>part. part \<noteq> [] \<and> part \<noteq> ''.'') (split_on CHR ''/'' p)) of
        [] \<Rightarrow> []
      | n # _ \<Rightarrow> n)"

definition path_suffix :: "string \<Rightarrow> string" where
  "path_suffix p =
     (let name = path_name p
      in case rfind_char name CHR ''.'' of
           None \<Rightarrow> []
         | Some i \<Rightarrow> if 0 < i \<and> Suc i < length name then drop i name else [])"

definition language_extensions :: "(string \<times> string list) list" where
  "language_extensions =
     [(''python'', [''.py'', ''.pyw'']),
      (''javascript'', [''.js'', ''.mjs'']),
      (''typescript'', [''.ts'', ''.tsx'']),
      (''java'', [''.java'']),
      (''go'', [''.go'']),
      (''rust'', [''.rs'']),
      (''cpp'', [''.cpp'', ''.cc'', ''.cxx'', ''.c++'', ''.hpp'', ''.h'']),
      (''csharp'', [''.cs'']),
      (''php'', [''.php'']),
      (''ruby'', [''.rb'']),
      (''html'', [''.html'', ''.htm'']),
      (''css'', [''.css'', ''.scss'', ''.sass'']),
      (''yaml'', [''.yml'', ''.yaml'']),
      (''json'', [''.json'']),
      (''xml'', [''.xml'']),
      (''sql'', [''.sql'']),
      (''shell'', [''.sh'', ''.bash'', ''.zsh''])]"

text \<open>\<^verbatim>\<open>AICodeReviewer._matches_languages\<close>, ai_reviewer.py lines 134-161.\<close>

fun languages_loop :: "string \<Rightarrow> string list \<Rightarrow> bool" where
  "languages_loop file_ext [] = False"
| "languages_loop file_ext (lang # langs) =
     (case map_of language_extensions (lower (strip lang)) of
        Some exts \<Rightarrow> if file_ext \<in> set exts then True else languages_loop file_ext langs
      | None \<Rightarrow> languages_loop file_ext langs)"

definition matches_languages :: "json \<Rightarrow> string list \<Rightarrow> py_error + bool" where
  "matches_languages file_path langs =
     (case file_path of
        JStr s \<Rightarrow> Inr (languages_loop (lower (path_suffix s)) langs)
      | _ \<Rightarrow> Inl (not_a_path file_path))"

subsection \<open>The filter\<close>

text \<open>
  A file is the dictionary built by the GitLab client: a changed file has the keys
  \<^verbatim>\<open>old_path\<close>, \<^verbatim>\<open>new_path\<close>, \<^verbatim>\<open>deleted_file\<close>, \<^verbatim>\<open>diff\<close>, ...; a project file has
  \<^verbatim>\<open>path\<close>, \<^verbatim>\<open>name\<close>, \<^verbatim>\<open>id\<close>.
\<close>

definition file_path_of :: "pydict \<Rightarrow> py_error + json" where
  "file_path_of file_info =
     (case map_of file_info ''new_path'' of
        Some v \<Rightarrow> Inr v
      | None \<Rightarrow> (case map_of file_info ''path'' of
                    Some v \<Rightarrow> Inr v
                  | None \<Rightarrow> Inl (KeyError (quoted ''path''))))"

text \<open>
  The body of the loop of \<^verbatim>\<open>_filter_files\<close>: whether the file is appended to the
  result (Inr True), skipped by a \<^verbatim>\<open>continue\<close> (Inr False), or an exception leaves the loop.
\<close>

definition keep_file :: "config \<Rightarrow> pydict \<Rightarrow> py_error + bool" where
  "keep_file cfg file_info =
     (case file_path_of file_info of
        Inl e \<Rightarrow> Inl e
      | Inr file_path \<Rightarrow>
          (if truthy (dict_get file_info ''deleted_file'' (JBool False)) then Inr False
           else (case matches_patterns file_path (exclude_patterns cfg) of
                   Inl e \<Rightarrow> Inl e
                 | Inr excluded \<Rightarrow>
                     (if excluded then Inr False
                      else (case (if include_patterns cfg \<noteq> []
                                  then matches_patterns file_path (include_patterns cfg)
                                  else Inr True) of
                              Inl e \<Rightarrow> Inl e
                            | Inr included \<Rightarrow>
                                (if \<not> included then Inr False
                                 else if languages cfg \<noteq> []
                                 then matches_languages file_path (languages cfg)
                                 else Inr True))))))"

text \<open>\<^verbatim>\<open>AICodeReviewer._filter_files\<close>, ai_reviewer.py lines 102-127.\<close>

fun filter_files :: "config \<Rightarrow> pydict list \<Rightarrow> py_error + pydict list" where
  "filter_files cfg [] = Inr []"
| "filter_files cfg (file_info # files) =
     (case keep_file cfg file_info of
        Inl e \<Rightarrow> Inl e
      | Inr keep \<Rightarrow>
          (case filter_files cfg files of
             Inl e \<Rightarrow> Inl e
           | Inr filtered \<Rightarrow> Inr (if keep then file_info # filtered else filtered)))"

section \<open>Library functions and external services\<close>

text \<open>
  The test-result document: the three counts of the test suite and its test cases. A
  test case has the \<^verbatim>\<open>name\<close> attribute and at most one \<^verbatim>\<open>failure\<close> or \<^verbatim>\<open>error\<close>
  node, given by its \<^verbatim>\<open>message\<close> attribute and its text.
\<close>

record testcase =
  tc_name :: json
  tc_failure :: "(string \<times> string) option"
  tc_error :: "(string \<times> string) option"

record junit =
  ts_tests :: nat
  ts_failures :: nat
  ts_errors :: nat
  testcases :: "testcase list"

text \<open>
  Functions of the Python library are parameters of the model, so that every theorem
  holds whatever they compute: \<^verbatim>\<open>json.loads\<close> (an \<open>Inl (JSONDecodeError msg)\<close> when the
  text is not JSON), the conversion \<^verbatim>\<open>float(v)\<close> (ValueError and TypeError as Python
  raises them), \<^verbatim>\<open>str(v)\<close> as used by f-strings and by the \<^verbatim>\<open>%s\<close> format, and
  \<^verbatim>\<open>repr(v)\<close>. Two more describe the XML parser on the serialised test cases: the text
  of the exception with which it rejects them (it gives the position of the offending
  character), and whether it accepts them when the name of a test case is not a string
  and has therefore been written without escaping.
\<close>

record pylib =
  json_loads :: "string \<Rightarrow> py_error + json"
  py_float :: "json \<Rightarrow> py_error + rat"
  py_str :: "json \<Rightarrow> string"
  py_repr :: "json \<Rightarrow> string"
  expat_message :: "testcase list \<Rightarrow> string"
  expat_accepts :: "testcase list \<Rightarrow> bool"

text \<open>
  The two services the program calls. \<open>get_file_content path ref\<close> is
  \<^verbatim>\<open>GitLabClient.get_file_content\<close>, which catches every exception and returns None.
  \<open>generate_content path content diff\<close> stands for building the prompt, calling
  \<^verbatim>\<open>self.model.generate_content(prompt)\<close> and reading \<^verbatim>\<open>response.text\<close>: Inl when
  one of these raises.
\<close>

record services =
  get_file_content :: "json \<Rightarrow> string option \<Rightarrow> string option"
  generate_content :: "json \<Rightarrow> string \<Rightarrow> json option \<Rightarrow> py_error + string"

text \<open>\<^verbatim>\<open>for x in v\<close>: a string yields its characters, a dictionary its keys.\<close>

fun py_iter :: "json \<Rightarrow> py_error + json list" where
  "py_iter (JArr xs) = Inr xs"
| "py_iter (JStr s) = Inr (map (\<lambda>c. JStr [c]) s)"
| "py_iter (JObj d) = Inr (map JStr (remdups (map fst d)))"
| "py_iter v = Inl (TypeError (quoted (type_name v) @ '' object is not iterable''))"

section \<open>Validation of a review result\<close>

definition valid_severities :: "json list" where
  "valid_severities = [JStr ''low'', JStr ''medium'', JStr ''high'']"

definition valid_categories :: "json list" where
  "valid_categories =
     [JStr ''security'', JStr ''performance'', JStr ''quality'', JStr ''logic'', JStr ''style'',
      JStr ''documentation'']"

text \<open>The body of the comment loop of \<^verbatim>\<open>_validate_review_result\<close>, lines 242-261.\<close>

definition validate_comment :: "pydict \<Rightarrow> pydict" where
  "validate_comment comment =
     (let severity = dict_get comment ''severity'' (JStr ''medium'');
          category = dict_get comment ''category'' (JStr ''quality'')
      in [(''line_number'', dict_get comment ''line_number'' JNull),
          (''severity'', if severity \<notin> set valid_severities then JStr ''medium'' else severity),
          (''category'', if category \<notin> set valid_categories then JStr ''quality'' else category),
          (''title'', dict_get comment ''title'' (JStr ''Code Review'')),
          (''description'', dict_get comment ''description'' (JStr [])),
          (''suggestion'', dict_get comment ''suggestion'' (JStr [])),
          (''impact'', dict_get comment ''impact'' (JStr []))])"

fun validate_comments :: "json list \<Rightarrow> json list" where
  "validate_comments [] = []"
| "validate_comments (JObj comment # rest) = JObj (validate_comment comment) # validate_comments rest"
| "validate_comments (v # rest) = validate_comments rest"

definition ensure_field :: "string \<Rightarrow> json \<Rightarrow> pydict \<Rightarrow> pydict" where
  "ensure_field field dflt d = (if map_of d field = None then AList.update field dflt d else d)"

definition ensure_list :: "string \<Rightarrow> pydict \<Rightarrow> pydict" where
  "ensure_list field d =
     (case map_of d field of
        None \<Rightarrow> AList.update field (JArr []) d
      | Some (JArr xs) \<Rightarrow> d
      | Some v \<Rightarrow> AList.update field (JArr []) d)"

text \<open>
  \<^verbatim>\<open>max(1, min(10, score))\<close> for a float \<open>score\<close>: both functions return their first
  argument unless the second is strictly smaller, respectively greater, so the bounds
  are returned as the integers they are written as.
\<close>

definition clamp_score :: "rat \<Rightarrow> json" where
  "clamp_score score =
     (if score < 10 then (if 1 < score then JFloat score else JInt 1) else JInt 10)"

text \<open>
  \<^verbatim>\<open>GeminiClient._validate_review_result\<close>, gemini_client.py lines 221-272, on a
  dictionary.
\<close>

definition validate_dict :: "pylib \<Rightarrow> pydict \<Rightarrow> py_error + pydict" where
  "validate_dict L review_result =
     (let r1 = ensure_field ''comments'' (JArr [])
                 (ensure_field ''summary'' (JStr [])
                   (ensure_field ''overall_score'' (JStr []) review_result))
      in case (case py_float L (dict_get r1 ''overall_score'' JNull) of
                 Inr score \<Rightarrow> Inr (clamp_score score)
               | Inl (ValueError msg) \<Rightarrow> Inr (JInt 5)
               | Inl (JSONDecodeError msg) \<Rightarrow> Inr (JInt 5)
               | Inl (TypeError msg) \<Rightarrow> Inr (JInt 5)
               | Inl e \<Rightarrow> Inl e) of
           Inl e \<Rightarrow> Inl e
         | Inr score \<Rightarrow>
             (let r2 = AList.update ''overall_score'' score r1
              in case py_iter (dict_get r2 ''comments'' (JArr [])) of
                   Inl e \<Rightarrow> Inl e
                 | Inr comments \<Rightarrow>
                     Inr (ensure_list ''recommendations''
                           (ensure_list ''positive_aspects''
                             (AList.update ''comments'' (JArr (validate_comments comments)) r2)))))"

text \<open>
  On a value that is not a dictionary the function raises TypeError: on a string or a
  list an item assignment fails (that of line 228, or that of line 236 inside the handler
  of the score conversion, when the three field names are parts of the string or
  elements of the list); on any other value the membership test of line 227 fails.
\<close>

definition validate_review_result :: "pylib \<Rightarrow> json \<Rightarrow> py_error + pydict" where
  "validate_review_result L review_result =
     (case review_result of
        JObj d \<Rightarrow> validate_dict L d
      | JStr s \<Rightarrow> Inl (TypeError (quoted ''str'' @ '' object does not support item assignment''))
      | JArr xs \<Rightarrow> Inl (TypeError ''list indices must be integers or slices, not str'')
      | _ \<Rightarrow>
          Inl (TypeError (''argument of type '' @ quoted (type_name review_result) @
                          '' is not iterable'')))"

section \<open>Extraction of JSON from a response\<close>

text \<open>
  The regular expression \<^verbatim>\<open>```(?:json)?\s*(\{.*?\})\s*```\<close> with \<^verbatim>\<open>re.DOTALL\<close>.
  \<open>lazy_close\<close> receives the text after the opening brace and returns the number of
  characters before the first closing brace that is followed by optional white space
  and a fence.
\<close>

fun lazy_close :: "string \<Rightarrow> nat option" where
  "lazy_close [] = None"
| "lazy_close (c # cs) =
     (if c = CHR ''}'' \<and> startswith (dropWhile is_space cs) ''```'' then Some 0
      else map_option Suc (lazy_close cs))"

definition fenced_at :: "string \<Rightarrow> string option" where
  "fenced_at s =
     (if startswith s ''```'' then
        (let r = drop 3 s;
             r1 = (if startswith r ''json'' then drop 4 r else r)
         in case dropWhile is_space r1 of
              [] \<Rightarrow> None
            | c # body \<Rightarrow>
                if c = CHR ''{'' then
                  (case lazy_close body of
                     None \<Rightarrow> None
                   | Some n \<Rightarrow> Some (c # take (Suc n) body))
                else None)
      else None)"

text \<open>The first element of \<^verbatim>\<open>re.findall(json_pattern, response_text, re.DOTALL)\<close>.\<close>

fun fenced_search :: "string \<Rightarrow> string option" where
  "fenced_search [] = None"
| "fenced_search (c # cs) =
     (case fenced_at (c # cs) of
        Some m \<Rightarrow> Some m
      | None \<Rightarrow> fenced_search cs)"

text \<open>
  \<^verbatim>\<open>response_text[brace_start:brace_end + 1]\<close> under the test of line 289.
\<close>

definition brace_span :: "string \<Rightarrow> string option" where
  "brace_span text =
     (case (find_char text CHR ''{'', rfind_char text CHR ''}'') of
        (Some brace_start, Some brace_end) \<Rightarrow>
          if brace_end > brace_start
          then Some (take (Suc brace_end - brace_start) (drop brace_start text))
          else None
      | _ \<Rightarrow> None)"

definition fallback_response :: json where
  "fallback_response =
     JObj [(''overall_score'', JInt 5),
           (''summary'', JStr ''Review completed but response format was invalid''),
           (''comments'', JArr [JObj
              [(''line_number'', JNull),
               (''severity'', JStr ''medium''),
               (''category'', JStr ''quality''),
               (''title'', JStr ''Review Format Issue''),
               (''description'', JStr ''The AI review response could not be properly parsed. Manual review may be needed.''),
               (''suggestion'', JStr []),
               (''impact'', JStr ''Unable to provide detailed feedback'')]]),
           (''positive_aspects'', JArr []),
           (''recommendations'', JArr [JStr ''Manual code review recommended due to parsing issues''])]"

text \<open>
  \<^verbatim>\<open>GeminiClient._extract_json_from_response\<close>, gemini_client.py lines 274-311. Any
  exception inside the \<^verbatim>\<open>try\<close> leads to the fallback response.
\<close>

definition extract_json_from_response :: "pylib \<Rightarrow> string \<Rightarrow> json" where
  "extract_json_from_response L response_text =
     (case fenced_search response_text of
        Some m \<Rightarrow>
          (case json_loads L m of
             Inr v \<Rightarrow> v
           | Inl e \<Rightarrow> fallback_response)
      | None \<Rightarrow>
          (case brace_span response_text of
             Some json_content \<Rightarrow>
               (case json_loads L json_content of
                  Inr v \<Rightarrow> v
                | Inl e \<Rightarrow> fallback_response)
           | None \<Rightarrow> fallback_response))"

section \<open>Reviewing a file\<close>

definition error_result :: "string \<Rightarrow> json" where
  "error_result msg = JObj [(''error'', JStr msg)]"

text \<open>
  \<^verbatim>\<open>GeminiClient.review_code\<close>, gemini_client.py lines 66-92, from the outcome of the
  call to the model on.
\<close>

definition review_code :: "pylib \<Rightarrow> py_error + string \<Rightarrow> json" where
  "review_code L outcome =
     (case outcome of
        Inl e \<Rightarrow> error_result (exc_text e)
      | Inr text \<Rightarrow>
          if text = [] then error_result ''Empty response from Gemini''
          else (case json_loads L text of
                  Inr parsed \<Rightarrow>
                    (case validate_review_result L parsed of
                       Inr validated \<Rightarrow> JObj validated
                     | Inl e \<Rightarrow> error_result (exc_text e))
                | Inl (JSONDecodeError msg) \<Rightarrow> extract_json_from_response L text
                | Inl e \<Rightarrow> error_result (exc_text e)))"

record review =
  file_path :: json
  review_result :: json
  file_info :: pydict

text \<open>
  \<^verbatim>\<open>AICodeReviewer._review_file\<close>, ai_reviewer.py lines 163-196. The path is read
  before the \<^verbatim>\<open>try\<close>, so a file with neither key raises KeyError to the caller;
  None is the \<^verbatim>\<open>return None\<close> of lines 172 and 196.
\<close>

definition review_file ::
  "config \<Rightarrow> pylib \<Rightarrow> services \<Rightarrow> pydict \<Rightarrow> py_error + review option" where
  "review_file cfg L S finfo =
     (case file_path_of finfo of
        Inl e \<Rightarrow> Inl e
      | Inr path \<Rightarrow>
          (case get_file_content S path (ci_commit_sha cfg) of
             None \<Rightarrow> Inr None
           | Some file_content \<Rightarrow>
               if file_content = [] then Inr None
               else Inr (Some \<lparr>file_path = path,
                                review_result =
                                  review_code L
                                    (generate_content S path file_content (map_of finfo ''diff'')),
                                file_info = finfo\<rparr>)))"

text \<open>The review loop of \<^verbatim>\<open>AICodeReviewer.run\<close>, ai_reviewer.py lines 288-305.\<close>

fun review_files ::
  "config \<Rightarrow> pylib \<Rightarrow> services \<Rightarrow> pydict list \<Rightarrow> py_error + review list" where
  "review_files cfg L S [] = Inr []"
| "review_files cfg L S (finfo # files) =
     (case review_file cfg L S finfo of
        Inl e \<Rightarrow> Inl e
      | Inr r \<Rightarrow>
          (case review_files cfg L S files of
             Inl e \<Rightarrow> Inl e
           | Inr reviews \<Rightarrow> Inr (case r of None \<Rightarrow> reviews | Some rv \<Rightarrow> rv # reviews)))"

section \<open>Summary statistics\<close>

text \<open>
  A counter dictionary whose keys are arbitrary hashable values. For Python the keys
  \<^verbatim>\<open>True\<close>, \<^verbatim>\<open>1\<close> and \<^verbatim>\<open>1.0\<close> are the same key: a Boolean and a float with an
  integral value stand for that integer.
\<close>

type_synonym counter = "(json \<times> nat) list"

definition dict_key :: "json \<Rightarrow> json" where
  "dict_key v =
     (case v of
        JBool b \<Rightarrow> JInt (if b then 1 else 0)
      | JFloat r \<Rightarrow> if of_int \<lfloor>r\<rfloor> = r then JInt \<lfloor>r\<rfloor> else JFloat r
      | _ \<Rightarrow> v)"

definition counter_get :: "counter \<Rightarrow> json \<Rightarrow> nat" where
  "counter_get counts v = (case map_of counts (dict_key v) of Some n \<Rightarrow> n | None \<Rightarrow> 0)"

text \<open>\<^verbatim>\<open>counts[v] = counts.get(v, 0) + 1\<close>.\<close>

definition count_key :: "counter \<Rightarrow> json \<Rightarrow> py_error + counter" where
  "count_key counts v =
     (if \<not> hashable v then Inl (unhashable v)
      else Inr (AList.update (dict_key v) (counter_get counts v + 1) counts))"

text \<open>The inner loop of \<^verbatim>\<open>_generate_summary\<close>, report_generator.py lines 60-66.\<close>

fun count_comments ::
  "json list \<Rightarrow> nat \<times> counter \<times> counter \<Rightarrow> py_error + nat \<times> counter \<times> counter" where
  "count_comments [] acc = Inr acc"
| "count_comments (c # cs) (total_comments, severity_counts, category_counts) =
     (case c of
        JObj comment \<Rightarrow>
          (case count_key severity_counts (dict_get comment ''severity'' (JStr ''medium'')) of
             Inl e \<Rightarrow> Inl e
           | Inr severity_counts' \<Rightarrow>
               (case count_key category_counts (dict_get comment ''category'' (JStr ''quality'')) of
                  Inl e \<Rightarrow> Inl e
                | Inr category_counts' \<Rightarrow>
                    count_comments cs (Suc total_comments, severity_counts', category_counts')))
      | _ \<Rightarrow> Inl (no_attribute c ''get''))"

text \<open>
  \<^verbatim>\<open>average_score += score\<close>: the right operand is a number, a Boolean counting as the
  integer 0 or 1.
\<close>

fun add_score :: "pynum \<Rightarrow> json \<Rightarrow> py_error + pynum" where
  "add_score a (JInt i) = Inr (num_add a (PInt i))"
| "add_score a (JFloat r) = Inr (num_add a (PFloat r))"
| "add_score a (JBool b) = Inr (num_add a (PInt (if b then 1 else 0)))"
| "add_score a v =
     Inl (TypeError (''unsupported operand type(s) for +=: '' @ quoted (num_type a) @
                     '' and '' @ quoted (type_name v)))"

text \<open>The outer loop of \<^verbatim>\<open>_generate_summary\<close>, report_generator.py lines 53-70.\<close>

fun summary_loop ::
  "review list \<Rightarrow> (nat \<times> counter \<times> counter) \<times> pynum \<Rightarrow>
     py_error + (nat \<times> counter \<times> counter) \<times> pynum" where
  "summary_loop [] acc = Inr acc"
| "summary_loop (r # rs) (counts, average_score) =
     (if \<not> truthy (review_result r) then summary_loop rs (counts, average_score)
      else (case review_result r of
              JObj result \<Rightarrow>
                (case py_iter (dict_get result ''comments'' (JArr [])) of
                   Inl e \<Rightarrow> Inl e
                 | Inr comments \<Rightarrow>
                     (case count_comments comments counts of
                        Inl e \<Rightarrow> Inl e
                      | Inr counts' \<Rightarrow>
                          (case add_score average_score
                                  (dict_get result ''overall_score'' (JInt 5)) of
                             Inl e \<Rightarrow> Inl e
                           | Inr average_score' \<Rightarrow> summary_loop rs (counts', average_score'))))
            | v \<Rightarrow> Inl (no_attribute v ''get'')))"

text \<open>
  The statistics of the summary; the average score is given by its value. The other
  entries of the dictionary (time stamp, identifiers, echo of the configuration) are
  copies of the configuration.
\<close>

record summary =
  total_files_reviewed :: nat
  total_comments :: nat
  average_score :: rat
  severity_distribution :: counter
  category_distribution :: counter

text \<open>\<^verbatim>\<open>ReportGenerator._generate_summary\<close>, report_generator.py lines 45-93.\<close>

definition generate_summary :: "review list \<Rightarrow> py_error + summary" where
  "generate_summary reviews =
     (case summary_loop reviews
             ((0, [(JStr ''high'', 0), (JStr ''medium'', 0), (JStr ''low'', 0)], []), PInt 0) of
        Inl e \<Rightarrow> Inl e
      | Inr ((n, severity_counts, category_counts), score_sum) \<Rightarrow>
          Inr \<lparr>total_files_reviewed = length reviews,
               total_comments = n,
               average_score =
                 num_value
                   (num_round2 (if length reviews > 0 then num_div score_sum (length reviews)
                                else score_sum)),
               severity_distribution = severity_counts,
               category_distribution = category_counts\<rparr>)"

section \<open>JUnit report\<close>

text \<open>\<^verbatim>\<open>[c for c in comments if c.get('severity') == sev]\<close>.\<close>

fun issues_with :: "string \<Rightarrow> json list \<Rightarrow> py_error + pydict list" where
  "issues_with sev [] = Inr []"
| "issues_with sev (c # cs) =
     (case c of
        JObj comment \<Rightarrow>
          (case issues_with sev cs of
             Inl e \<Rightarrow> Inl e
           | Inr rest \<Rightarrow>
               Inr (if map_of comment ''severity'' = Some (JStr sev) then comment # rest else rest))
      | _ \<Rightarrow> Inl (no_attribute c ''get''))"

text \<open>\<^verbatim>\<open>sep.join(parts)\<close>.\<close>

fun join :: "string \<Rightarrow> string list \<Rightarrow> string" where
  "join sep [] = []"
| "join sep [x] = x"
| "join sep (x # y # ys) = x @ sep @ join sep (y # ys)"

definition issue_line :: "pylib \<Rightarrow> pydict \<Rightarrow> string" where
  "issue_line L c =
     py_str L (dict_get c ''title'' (JStr [])) @ '': '' @ py_str L (dict_get c ''description'' (JStr []))"

definition issues_text :: "pylib \<Rightarrow> pydict list \<Rightarrow> string" where
  "issues_text L issues = join [CHR 0x0A] (map (issue_line L) issues)"

text \<open>
  The body of the loop of \<^verbatim>\<open>_generate_junit_report\<close>, report_generator.py lines
  187-207, for a review whose result is not falsy.
\<close>

definition junit_testcase :: "pylib \<Rightarrow> review \<Rightarrow> py_error + testcase" where
  "junit_testcase L r =
     (case review_result r of
        JObj result \<Rightarrow>
          (case py_iter (dict_get result ''comments'' (JArr [])) of
             Inl e \<Rightarrow> Inl e
           | Inr comments \<Rightarrow>
               (case issues_with ''high'' comments of
                  Inl e \<Rightarrow> Inl e
                | Inr high_issues \<Rightarrow>
                    (case issues_with ''medium'' comments of
                       Inl e \<Rightarrow> Inl e
                     | Inr medium_issues \<Rightarrow>
                         Inr \<lparr>tc_name = file_path r,
                              tc_failure =
                                (if high_issues \<noteq> []
                                 then Some (''High severity issues found in '' @ py_str L (file_path r),
                                            issues_text L high_issues)
                                 else None),
                              tc_error =
                                (if medium_issues \<noteq> [] \<and> \<not> high_issues \<noteq> []
                                 then Some (''Medium severity issues found in '' @ py_str L (file_path r),
                                            issues_text L medium_issues)
                                 else None)\<rparr>)))
      | v \<Rightarrow> Inl (no_attribute v ''get''))"

fun junit_testcases :: "pylib \<Rightarrow> review list \<Rightarrow> py_error + testcase list" where
  "junit_testcases L [] = Inr []"
| "junit_testcases L (r # rs) =
     (if \<not> truthy (review_result r) then junit_testcases L rs
      else (case junit_testcase L r of
              Inl e \<Rightarrow> Inl e
            | Inr tc \<Rightarrow>
                (case junit_testcases L rs of
                   Inl e \<Rightarrow> Inl e
                 | Inr tcs \<Rightarrow> Inr (tc # tcs))))"

text \<open>
  The serialisation of line 210, \<^verbatim>\<open>minidom.parseString(ET.tostring(testsuites))\<close>.
  \<^verbatim>\<open>ET.tostring\<close> escapes the value of an attribute after testing it for the seven
  strings below. On a name that is not a string the tests raise, and so does the
  replacement that follows a test which a list or a dictionary passes: the outcome is the
  TypeError of \<^verbatim>\<open>_raise_serialization_error\<close>. A list or a dictionary that contains none
  of the seven strings is written as \<^verbatim>\<open>str\<close> gives it, unescaped.
\<close>

definition attrib_specials :: "string list" where
  "attrib_specials = [''&'', ''<'', ''>'', [CHR 0x22], [CHR 0x0D], [CHR 0x0A], [CHR 0x09]]"

definition serialisable_name :: "json \<Rightarrow> bool" where
  "serialisable_name v =
     (case v of
        JStr s \<Rightarrow> True
      | JArr xs \<Rightarrow> \<not> list_ex (\<lambda>x. x \<in> set (map JStr attrib_specials)) xs
      | JObj d \<Rightarrow> \<not> list_ex (\<lambda>k. k \<in> set attrib_specials) (map fst d)
      | _ \<Rightarrow> False)"

definition cannot_serialize :: "pylib \<Rightarrow> json \<Rightarrow> py_error" where
  "cannot_serialize L v =
     TypeError (''cannot serialize '' @ py_repr L v @ '' (type '' @ type_name v @ '')'')"

text \<open>
  The parser then reads the text back. Strings are written escaped, and code points above
  the ASCII range as character references, so the parser rejects the document exactly
  when a string contains a character that XML 1.0 does not allow: a control character
  other than tab, line feed and carriage return.
\<close>

definition xml_char :: "char \<Rightarrow> bool" where
  "xml_char c = ((of_char c :: nat) \<in> {9, 10, 13} \<or> 32 \<le> (of_char c :: nat))"

definition xml_text :: "string \<Rightarrow> bool" where
  "xml_text s = list_all xml_char s"

definition node_strings :: "(string \<times> string) option \<Rightarrow> string list" where
  "node_strings node = (case node of None \<Rightarrow> [] | Some (message, text) \<Rightarrow> [message, text])"

definition testcase_strings :: "testcase \<Rightarrow> string list" where
  "testcase_strings tc =
     (case tc_name tc of JStr s \<Rightarrow> [s] | _ \<Rightarrow> []) @
     node_strings (tc_failure tc) @ node_strings (tc_error tc)"

definition is_string :: "json \<Rightarrow> bool" where
  "is_string v = (case v of JStr s \<Rightarrow> True | _ \<Rightarrow> False)"

definition parses :: "pylib \<Rightarrow> testcase list \<Rightarrow> bool" where
  "parses L tcs =
     (if list_all (\<lambda>tc. is_string (tc_name tc)) tcs
      then list_all (\<lambda>tc. list_all xml_text (testcase_strings tc)) tcs
      else expat_accepts L tcs)"

definition serialise :: "pylib \<Rightarrow> testcase list \<Rightarrow> py_error option" where
  "serialise L tcs =
     (case filter (\<lambda>tc. \<not> serialisable_name (tc_name tc)) tcs of
        tc # _ \<Rightarrow> Some (cannot_serialize L (tc_name tc))
      | [] \<Rightarrow> if parses L tcs then None else Some (ExpatError (expat_message L tcs)))"

text \<open>
  \<^verbatim>\<open>ReportGenerator._generate_junit_report\<close>, report_generator.py lines 163-217: the
  document that is written, or the exception that is caught and logged instead.
\<close>

definition generate_junit_report :: "pylib \<Rightarrow> summary \<Rightarrow> review list \<Rightarrow> py_error + junit" where
  "generate_junit_report L summ reviews =
     (case junit_testcases L reviews of
        Inl e \<Rightarrow> Inl e
      | Inr tcs \<Rightarrow>
          (case serialise L tcs of
             Some e \<Rightarrow> Inl e
           | None \<Rightarrow>
               Inr \<lparr>ts_tests = total_files_reviewed summ,
                    ts_failures = counter_get (severity_distribution summ) (JStr ''high''),
                    ts_errors = counter_get (severity_distribution summ) (JStr ''medium''),
                    testcases = tcs\<rparr>))"

section \<open>Webhook server\<close>

text \<open>
  The module \<^verbatim>\<open>web_server.py\<close>. The state is the global table \<^verbatim>\<open>active_reviews\<close>,
  the value of the semaphore and the background threads started so far. A request is
  the token of its \<^verbatim>\<open>X-Gitlab-Token\<close> header (empty when absent) and the outcome of
  \<^verbatim>\<open>request.get_json()\<close>. A response is the JSON body and the HTTP status.
\<close>

record web_config =
  webhook_secret :: string
  max_concurrent_reviews :: nat

record request =
  gitlab_token :: string
  body :: "py_error + json"

type_synonym response = "pydict \<times> nat"

datatype phase = Waiting | Running | Sleeping | Finished

record job =
  review_key :: string
  job_mr_iid :: json
  job_project_id :: json
  job_phase :: phase

record server =
  active_reviews :: "(string \<times> pydict) list"
  semaphore :: nat
  jobs :: "job list"

definition init_server :: "web_config \<Rightarrow> server" where
  "init_server wc = \<lparr>active_reviews = [], semaphore = max_concurrent_reviews wc, jobs = []\<rparr>"

text \<open>\<^verbatim>\<open>v.get(key, default)\<close> on a value that has to be a dictionary.\<close>

definition attr_get :: "json \<Rightarrow> string \<Rightarrow> json \<Rightarrow> py_error + json" where
  "attr_get v k dflt =
     (case v of JObj d \<Rightarrow> Inr (dict_get d k dflt) | _ \<Rightarrow> Inl (no_attribute v ''get''))"

definition server_error :: "py_error \<Rightarrow> response" where
  "server_error e = ([(''error'', JStr (exc_text e))], 500)"

text \<open>
  The part of \<^verbatim>\<open>gitlab_webhook\<close> after the payload has been read, web_server.py lines
  83-169; an exception is caught by the handler of line 171.
\<close>

definition handle_payload :: "pylib \<Rightarrow> server \<Rightarrow> json \<Rightarrow> py_error + response \<times> server" where
  "handle_payload L sv webhook_data =
     (case attr_get webhook_data ''object_kind'' (JStr []) of
        Inl e \<Rightarrow> Inl e
      | Inr event_type \<Rightarrow>
          (if event_type \<noteq> JStr ''merge_request''
           then Inr (([(''message'', JStr ''Event type not supported''),
                       (''event_type'', event_type)], 200), sv)
           else (case attr_get webhook_data ''object_attributes'' (JObj []) of
                   Inl e \<Rightarrow> Inl e
                 | Inr mr_data \<Rightarrow>
           (case attr_get mr_data ''iid'' JNull of
              Inl e \<Rightarrow> Inl e
            | Inr mr_iid \<Rightarrow>
           (case attr_get mr_data ''action'' (JStr []) of
              Inl e \<Rightarrow> Inl e
            | Inr mr_action \<Rightarrow>
           (case attr_get webhook_data ''project'' (JObj []) of
              Inl e \<Rightarrow> Inl e
            | Inr project \<Rightarrow>
           (case attr_get project ''id'' JNull of
              Inl e \<Rightarrow> Inl e
            | Inr project_id \<Rightarrow>
                (if \<not> truthy mr_iid \<or> \<not> truthy project_id
                 then Inr (([(''error'', JStr ''Missing required merge request data'')], 400), sv)
                 else if mr_action \<notin> {JStr ''open'', JStr ''update'', JStr ''reopen''}
                 then Inr (([(''message'',
                              JStr (''MR action '' @ [CHR 0x22] @ py_str L mr_action @ [CHR 0x22] @
                                    '' not processed''))], 200),
                           sv)
                 else (let key = py_str L project_id @ '':'' @ py_str L mr_iid
                       in if map_of (active_reviews sv) key \<noteq> None
                          then Inr (([(''message'', JStr ''Review already in progress''),
                                      (''review_id'', JStr key)], 202), sv)
                          else Inr (([(''message'', JStr ''AI code review started''),
                                      (''review_id'', JStr key),
                                      (''mr_iid'', mr_iid),
                                      (''project_id'', project_id),
                                      (''action'', mr_action)], 202),
                                    sv\<lparr>jobs := jobs sv @
                                         [\<lparr>review_key = key, job_mr_iid = mr_iid,
                                           job_project_id = project_id,
                                           job_phase = Waiting\<rparr>]\<rparr>))))))))))"

text \<open>\<^verbatim>\<open>gitlab_webhook\<close>, web_server.py lines 67-173.\<close>

definition gitlab_webhook :: "web_config \<Rightarrow> pylib \<Rightarrow> server \<Rightarrow> request \<Rightarrow> response \<times> server" where
  "gitlab_webhook wc L sv req =
     (if webhook_secret wc \<noteq> [] \<and> gitlab_token req \<noteq> webhook_secret wc
      then (([(''error'', JStr ''Invalid webhook token'')], 401), sv)
      else (case body req of
              Inl e \<Rightarrow> (server_error e, sv)
            | Inr webhook_data \<Rightarrow>
                if \<not> truthy webhook_data
                then (([(''error'', JStr ''No JSON data provided'')], 400), sv)
                else (case handle_payload L sv webhook_data of
                        Inl e \<Rightarrow> (server_error e, sv)
                      | Inr res \<Rightarrow> res)))"

text \<open>
  The background thread \<^verbatim>\<open>run_review\<close>, web_server.py lines 110-157, in three atomic
  steps. How \<^verbatim>\<open>reviewer.run()\<close> ended is an input: it returned, it raised an exception with a
  message, or it left through \<^verbatim>\<open>sys.exit\<close>, which \<^verbatim>\<open>except Exception\<close> does not catch.
\<close>

datatype outcome = Returned | Raised string | Exited

text \<open>Entering \<^verbatim>\<open>with review_semaphore\<close> and writing the record, lines 112-118.\<close>

definition thread_start :: "server \<Rightarrow> nat \<Rightarrow> string \<Rightarrow> server" where
  "thread_start sv i now =
     (if i < length (jobs sv) \<and> job_phase (jobs sv ! i) = Waiting \<and> 0 < semaphore sv
      then (let j = jobs sv ! i
            in sv\<lparr>active_reviews :=
                     AList.update (review_key j)
                       [(''started_at'', JStr now), (''status'', JStr ''running''),
                        (''mr_iid'', job_mr_iid j), (''project_id'', job_project_id j)]
                       (active_reviews sv),
                   semaphore := semaphore sv - 1,
                   jobs := (jobs sv)[i := j\<lparr>job_phase := Running\<rparr>]\<rparr>)
      else sv)"

text \<open>
  The end of the review, lines 134-148, and the release of the semaphore. When the key has
  been removed in the meantime, the update of line 138 raises KeyError and the handler of
  line 143 finds nothing to update.
\<close>

definition thread_finish :: "server \<Rightarrow> nat \<Rightarrow> outcome \<Rightarrow> string \<Rightarrow> server" where
  "thread_finish sv i out now =
     (if i < length (jobs sv) \<and> job_phase (jobs sv ! i) = Running
      then (let j = jobs sv ! i;
                table =
                  (case map_of (active_reviews sv) (review_key j) of
                     None \<Rightarrow> active_reviews sv
                   | Some st \<Rightarrow>
                       (case out of
                          Returned \<Rightarrow>
                            AList.update (review_key j)
                              (AList.update ''completed_at'' (JStr now)
                                (AList.update ''status'' (JStr ''completed'') st))
                              (active_reviews sv)
                        | Raised msg \<Rightarrow>
                            AList.update (review_key j)
                              (AList.update ''completed_at'' (JStr now)
                                (AList.update ''error'' (JStr msg)
                                  (AList.update ''status'' (JStr ''failed'') st)))
                              (active_reviews sv)
                        | Exited \<Rightarrow> active_reviews sv))
            in sv\<lparr>active_reviews := table,
                   semaphore := semaphore sv + 1,
                   jobs := (jobs sv)[i := j\<lparr>job_phase := Sleeping\<rparr>]\<rparr>)
      else sv)"

text \<open>The thread \<^verbatim>\<open>cleanup\<close>, lines 151-155, once its 300 seconds have passed.\<close>

definition thread_cleanup :: "server \<Rightarrow> nat \<Rightarrow> server" where
  "thread_cleanup sv i =
     (if i < length (jobs sv) \<and> job_phase (jobs sv ! i) = Sleeping
      then (let j = jobs sv ! i
            in sv\<lparr>active_reviews := AList.delete (review_key j) (active_reviews sv),
                   jobs := (jobs sv)[i := j\<lparr>job_phase := Finished\<rparr>]\<rparr>)
      else sv)"

text \<open>An interleaving of requests and thread steps, with the responses sent.\<close>

datatype event =
    Webhook request
  | Start nat string
  | Finish nat outcome string
  | Cleanup nat

fun step :: "web_config \<Rightarrow> pylib \<Rightarrow> server \<times> response list \<Rightarrow> event \<Rightarrow> server \<times> response list" where
  "step wc L (sv, out) (Webhook req) =
     (case gitlab_webhook wc L sv req of (resp, sv') \<Rightarrow> (sv', out @ [resp]))"
| "step wc L (sv, out) (Start i now) = (thread_start sv i now, out)"
| "step wc L (sv, out) (Finish i res now) = (thread_finish sv i res now, out)"
| "step wc L (sv, out) (Cleanup i) = (thread_cleanup sv i, out)"

definition run_events :: "web_config \<Rightarrow> pylib \<Rightarrow> event list \<Rightarrow> server \<times> response list" where
  "run_events wc L evs = foldl (step wc L) (init_server wc, []) evs"

text \<open>\<^verbatim>\<open>review_status\<close>, web_server.py lines 176-182.\<close>

definition review_status_of :: "server \<Rightarrow> string \<Rightarrow> response" where
  "review_status_of sv review_id =
     (case map_of (active_reviews sv) review_id of
        Some st \<Rightarrow> (st, 200)
      | None \<Rightarrow> ([(''error'', JStr ''Review not found'')], 404))"

section \<open>Reference definitions taken from the specification\<close>

text \<open>
  The pattern semantics the specification describes for the file filter: \<^verbatim>\<open>*\<close> matches
  any run of characters other than the separator \<^verbatim>\<open>/\<close>, every other character matches
  itself.
\<close>

function spec_glob :: "string \<Rightarrow> string \<Rightarrow> bool" where
  "spec_glob [] [] = True"
| "spec_glob (x # xs) [] = False"
| "spec_glob s (c # p) =
     (if c = CHR ''*'' then
        (spec_glob s p \<or>
         (case s of [] \<Rightarrow> False | x # xs \<Rightarrow> x \<noteq> CHR ''/'' \<and> spec_glob xs (c # p)))
      else (case s of [] \<Rightarrow> False | x # xs \<Rightarrow> x = c \<and> spec_glob xs p))"
  by pat_completeness auto
termination
  by (relation "measure (\<lambda>(s, p). length s + length p)") auto

text \<open>
  The shape of a Finding and of a FileReviewResult in the data model of the
  specification: a finding has a severity among low, medium, high and a category among
  the six categories, next to its other fields; a result has a score between 1 and 10,
  a summary and a list of findings.
\<close>

definition valid_finding :: "json \<Rightarrow> bool" where
  "valid_finding v =
     (case v of
        JObj c \<Rightarrow>
          (case map_of c ''severity'' of Some s \<Rightarrow> s \<in> set valid_severities | None \<Rightarrow> False) \<and>
          (case map_of c ''category'' of Some k \<Rightarrow> k \<in> set valid_categories | None \<Rightarrow> False) \<and>
          list_all (\<lambda>k. map_of c k \<noteq> None)
            [''line_number'', ''title'', ''description'', ''suggestion'', ''impact'']
      | _ \<Rightarrow> False)"

fun number_value :: "json \<Rightarrow> rat option" where
  "number_value (JInt i) = Some (of_int i)"
| "number_value (JFloat r) = Some r"
| "number_value v = None"

definition validated_shape :: "json \<Rightarrow> bool" where
  "validated_shape v =
     (case v of
        JObj d \<Rightarrow>
          (case map_of d ''overall_score'' of
             Some n \<Rightarrow> (case number_value n of Some x \<Rightarrow> 1 \<le> x \<and> x \<le> 10 | None \<Rightarrow> False)
           | None \<Rightarrow> False) \<and>
          (case map_of d ''comments'' of Some (JArr cs) \<Rightarrow> list_all valid_finding cs | _ \<Rightarrow> False) \<and>
          map_of d ''summary'' \<noteq> None
      | _ \<Rightarrow> False)"

text \<open>The findings and the score of a per-file result, as the reports read them.\<close>

definition findings_of :: "json \<Rightarrow> json list" where
  "findings_of v =
     (case v of
        JObj d \<Rightarrow> (case py_iter (dict_get d ''comments'' (JArr [])) of Inr cs \<Rightarrow> cs | Inl e \<Rightarrow> [])
      | _ \<Rightarrow> [])"

definition score_of :: "json \<Rightarrow> rat" where
  "score_of v =
     (case v of
        JObj d \<Rightarrow>
          (case map_of d ''overall_score'' of
             Some n \<Rightarrow> (case number_value n of Some x \<Rightarrow> x | None \<Rightarrow> 0)
           | None \<Rightarrow> 0)
      | _ \<Rightarrow> 0)"

definition severity_of :: "json \<Rightarrow> json option" where
  "severity_of v = (case v of JObj c \<Rightarrow> map_of c ''severity'' | _ \<Rightarrow> None)"

text \<open>The mean of the scores of a sequence of per-file results, 0 for the empty sequence.\<close>

definition mean_score :: "review list \<Rightarrow> rat" where
  "mean_score reviews =
     (if reviews = [] then 0
      else sum_list (map (\<lambda>r. score_of (review_result r)) reviews) / of_nat (length reviews))"

text \<open>
  The three-way mapping of the test-result document in the words of the specification,
  for one reviewed file and its test case: a high finding gives a failure node, built
  from the titles and descriptions of the high findings, and no error node; a medium
  finding and no high one gives an error node and no failure node; only low findings,
  or none, give neither. The text of a node has one line for every finding of the
  severity, in their order: the title, a colon and a space, and the description (an
  absent one is empty), all as \<^verbatim>\<open>str\<close> gives them.
\<close>

definition with_severity :: "string \<Rightarrow> json list \<Rightarrow> json list" where
  "with_severity sev fs = filter (\<lambda>c. severity_of c = Some (JStr sev)) fs"

definition field_text :: "pylib \<Rightarrow> json \<Rightarrow> string \<Rightarrow> string" where
  "field_text L c k =
     (case c of
        JObj d \<Rightarrow> (case map_of d k of Some v \<Rightarrow> py_str L v | None \<Rightarrow> py_str L (JStr []))
      | _ \<Rightarrow> [])"

definition spec_line :: "pylib \<Rightarrow> json \<Rightarrow> string" where
  "spec_line L c = field_text L c ''title'' @ '': '' @ field_text L c ''description''"

fun spec_lines :: "string list \<Rightarrow> string" where
  "spec_lines [] = []"
| "spec_lines (l # ls) = l @ concat (map (\<lambda>x. CHR 0x0A # x) ls)"

definition spec_node :: "pylib \<Rightarrow> string \<Rightarrow> review \<Rightarrow> json list \<Rightarrow> string \<times> string" where
  "spec_node L level r fs =
     (level @ '' severity issues found in '' @ py_str L (file_path r),
      spec_lines (map (spec_line L) fs))"

definition junit_class :: "pylib \<Rightarrow> review \<Rightarrow> testcase \<Rightarrow> bool" where
  "junit_class L r tc =
     (let fs = findings_of (review_result r);
          high = with_severity ''high'' fs;
          medium = with_severity ''medium'' fs
      in tc_name tc = file_path r \<and>
         (high \<noteq> [] \<longrightarrow>
            tc_failure tc = Some (spec_node L ''High'' r high) \<and> tc_error tc = None) \<and>
         (high = [] \<and> medium \<noteq> [] \<longrightarrow>
            tc_error tc = Some (spec_node L ''Medium'' r medium) \<and> tc_failure tc = None) \<and>
         (high = [] \<and> medium = [] \<longrightarrow> tc_failure tc = None \<and> tc_error tc = None))"

section \<open>Concrete inputs\<close>

text \<open>Inputs at which the properties below are evaluated.\<close>

definition demo_config :: config where
  "demo_config =
     \<lparr>languages = [''python''], severity_threshold = ''medium'', include_patterns = [],
      exclude_patterns = [''*.min.js'', ''docs/*''], ci_commit_sha = Some ''abc123''\<rparr>"

definition demo_files :: "pydict list" where
  "demo_files =
     [[(''old_path'', JStr ''src/app.py''), (''new_path'', JStr ''src/app.py''),
       (''deleted_file'', JBool False), (''diff'', JStr ''+x = 1'')],
      [(''path'', JStr ''static/app.min.js'')],
      [(''old_path'', JStr ''old.py''), (''new_path'', JStr ''old.py''),
       (''deleted_file'', JBool True), (''diff'', JStr [])],
      [(''path'', JStr ''docs/guide.py'')],
      [(''path'', JStr ''tools/Build.PY'')]]"

text \<open>
  Library functions for the examples. They agree with Python on the values the examples
  pass to them: \<open>demo_loads\<close> on the texts it is applied to, \<open>demo_float\<close> on numbers
  and strings that are not numerals, \<open>demo_str\<close> and \<open>demo_repr\<close> on strings without
  quotes and on natural numbers.
\<close>

definition demo_review_text :: string where
  \<open>demo_review_text =
     ''{"overall_score": 12, "comments": [{"severity": "critical", "title": "SQL injection"}]}''\<close>

definition demo_review_json :: json where
  "demo_review_json =
     JObj [(''overall_score'', JInt 12),
           (''comments'',
            JArr [JObj [(''severity'', JStr ''critical''), (''title'', JStr ''SQL injection'')]])]"

definition demo_fenced_text :: string where
  "demo_fenced_text =
     ''Here is the review:'' @ [CHR 0x0A] @ ''```json'' @ [CHR 0x0A] @ demo_review_text @
     [CHR 0x0A] @ ''```''"

text \<open>
  A response that is a JSON object followed by a remark, so that it does not parse as a
  whole; the summary of the object quotes a code fragment between fences.
\<close>

definition demo_quoting_json_text :: string where
  \<open>demo_quoting_json_text = ''{"summary": "see ```{x}```"}''\<close>

definition demo_quoting_text :: string where
  "demo_quoting_text = demo_quoting_json_text @ '' Bye''"

definition demo_quoting_json :: json where
  "demo_quoting_json = JObj [(''summary'', JStr ''see ```{x}```'')]"

definition demo_loads :: "string \<Rightarrow> py_error + json" where
  "demo_loads s =
     (if s = demo_review_text then Inr demo_review_json
      else if s = demo_quoting_json_text then Inr demo_quoting_json
      else if s = ''{}'' then Inr (JObj [])
      else if s = demo_quoting_text
      then Inl (JSONDecodeError ''Extra data: line 1 column 30 (char 29)'')
      else if s = ''{x}'' \<or> s = ''{this}''
      then Inl (JSONDecodeError
                  ''Expecting property name enclosed in double quotes: line 1 column 2 (char 1)'')
      else Inl (JSONDecodeError ''Expecting value: line 1 column 1 (char 0)''))"

definition demo_float :: "json \<Rightarrow> py_error + rat" where
  "demo_float v =
     (case v of
        JInt i \<Rightarrow> Inr (of_int i)
      | JFloat r \<Rightarrow> Inr r
      | JBool b \<Rightarrow> Inr (if b then 1 else 0)
      | JStr s \<Rightarrow> Inl (ValueError (''could not convert string to float: '' @ quoted s))
      | _ \<Rightarrow>
          Inl (TypeError (''float() argument must be a string or a real number, not '' @
                          quoted (type_name v))))"

fun show_nat :: "nat \<Rightarrow> string" where
  "show_nat n =
     (if n < 10 then [''0123456789'' ! n]
      else show_nat (n div 10) @ [''0123456789'' ! (n mod 10)])"

definition demo_str :: "json \<Rightarrow> string" where
  "demo_str v =
     (case v of
        JStr s \<Rightarrow> s
      | JInt i \<Rightarrow> show_nat (nat i)
      | _ \<Rightarrow> ''None'')"

definition demo_repr :: "json \<Rightarrow> string" where
  "demo_repr v = (case v of JStr s \<Rightarrow> quoted s | _ \<Rightarrow> demo_str v)"

definition demo_lib :: pylib where
  "demo_lib =
     \<lparr>json_loads = demo_loads, py_float = demo_float, py_str = demo_str, py_repr = demo_repr,
      expat_message = (\<lambda>tcs. ''not well-formed (invalid token): line 1, column 1''),
      expat_accepts = (\<lambda>tcs. False)\<rparr>"

text \<open>
  Services for which the content of every file is fetched and every call to the model
  fails.
\<close>

definition failing_services :: services where
  "failing_services =
     \<lparr>get_file_content = (\<lambda>path ref. Some ''x = 1''),
      generate_content = (\<lambda>path content diff. Inl (ExternalError ''503 Service Unavailable''))\<rparr>"

text \<open>Services for which no file content can be fetched.\<close>

definition missing_services :: services where
  "missing_services =
     \<lparr>get_file_content = (\<lambda>path ref. None),
      generate_content = (\<lambda>path content diff. Inr ''{}'')\<rparr>"

definition failed_review :: review where
  "failed_review =
     \<lparr>file_path = JStr ''src/app.py'',
      review_result = JObj [(''error'', JStr ''503 Service Unavailable'')],
      file_info = [(''path'', JStr ''src/app.py'')]\<rparr>"

text \<open>A validated result with a given score and no findings.\<close>

definition scored_review :: "json \<Rightarrow> review" where
  "scored_review x =
     \<lparr>file_path = JStr ''src/app.py'',
      review_result =
        JObj [(''overall_score'', x), (''summary'', JStr ''ok''), (''comments'', JArr []),
              (''positive_aspects'', JArr []), (''recommendations'', JArr [])],
      file_info = [(''path'', JStr ''src/app.py'')]\<rparr>"

text \<open>
  Three reviewed files: two high findings around a medium one, a medium finding, a low
  finding. And a reviewed file whose high finding has a control character in its title.
\<close>

definition finding :: "string \<Rightarrow> string \<Rightarrow> json" where
  "finding sev title =
     JObj [(''line_number'', JNull), (''severity'', JStr sev), (''category'', JStr ''quality''),
           (''title'', JStr title), (''description'', JStr ''details''),
           (''suggestion'', JStr []), (''impact'', JStr [])]"

definition review_with :: "string \<Rightarrow> json list \<Rightarrow> review" where
  "review_with path fs =
     \<lparr>file_path = JStr path,
      review_result =
        JObj [(''overall_score'', JFloat 6), (''summary'', JStr ''ok''), (''comments'', JArr fs),
              (''positive_aspects'', JArr []), (''recommendations'', JArr [])],
      file_info = [(''path'', JStr path)]\<rparr>"

definition demo_reviews :: "review list" where
  "demo_reviews =
     [review_with ''a.py''
        [finding ''high'' ''Injection'', finding ''medium'' ''Naming'', finding ''high'' ''Overflow''],
      review_with ''b.py'' [finding ''medium'' ''Naming''],
      review_with ''c.py'' [finding ''low'' ''Typo'']]"

definition demo_summary :: summary where
  "demo_summary =
     \<lparr>total_files_reviewed = 3, total_comments = 5, average_score = 6,
      severity_distribution = [(JStr ''high'', 2), (JStr ''medium'', 2), (JStr ''low'', 1)],
      category_distribution = [(JStr ''quality'', 5)]\<rparr>"

definition bell_review :: review where
  "bell_review = review_with ''d.py'' [finding ''high'' (''Bell'' @ [CHR 0x07])]"

text \<open>A merge request event of GitLab for merge request 42 of project 7.\<close>

definition demo_web_config :: web_config where
  "demo_web_config = \<lparr>webhook_secret = ''s3cret'', max_concurrent_reviews = 3\<rparr>"

definition demo_request :: request where
  "demo_request =
     \<lparr>gitlab_token = ''s3cret'',
      body = Inr (JObj [(''object_kind'', JStr ''merge_request''),
                        (''project'', JObj [(''id'', JInt 7), (''web_url'', JStr ''https://gitlab.com/g/p'')]),
                        (''object_attributes'',
                         JObj [(''iid'', JInt 42), (''action'', JStr ''update'')])])\<rparr>"

text \<open>
  The server after the request has been accepted and its thread has written the record;
  after the review has then returned; and after it has raised instead.
\<close>

definition demo_running_server :: server where
  "demo_running_server =
     fst (run_events demo_web_config demo_lib
            [Webhook demo_request, Start 0 ''2024-05-01T10:00:00''])"

definition demo_completed_server :: server where
  "demo_completed_server =
     fst (run_events demo_web_config demo_lib
            [Webhook demo_request, Start 0 ''2024-05-01T10:00:00'',
             Finish 0 Returned ''2024-05-01T10:01:00''])"

definition demo_failed_server :: server where
  "demo_failed_server =
     fst (run_events demo_web_config demo_lib
            [Webhook demo_request, Start 0 ''2024-05-01T10:00:00'',
             Finish 0 (Raised ''connection reset'') ''2024-05-01T10:01:00''])"

definition in_progress_response :: response where
  "in_progress_response =
     ([(''message'', JStr ''Review already in progress''), (''review_id'', JStr ''7:42'')], 202)"

section \<open>Properties of the comment gate\<close>

text \<open>
  Claim C8. For a finding whose severity is one of low, medium and high, the comment gate
  posts the finding exactly when its severity is at least the threshold in the order
  low < medium < high; a threshold that is none of the three behaves as medium; at
  threshold medium the gate posts medium and high findings and suppresses low ones.
\<close>

theorem comment_gate_threshold:
  assumes "map_of c ''severity'' = Some (JStr s)" and "s \<in> {''low'', ''medium'', ''high''}"
  shows "should_post_comment cfg c =
           Inr (spec_rank (spec_threshold (severity_threshold cfg)) \<le> spec_rank s) \<and>
         (severity_threshold cfg = ''medium'' \<longrightarrow>
            should_post_comment cfg c = Inr (s = ''medium'' \<or> s = ''high''))"
  using assms
  by (auto simp: should_post_comment_def table_get_def dict_get_def severity_levels_def
        spec_rank_def spec_threshold_def)

theorem comment_gate_threshold_witness:
  "should_post_comment demo_config [(''severity'', JStr ''high'')] = Inr True \<and>
   should_post_comment demo_config [(''severity'', JStr ''low'')] = Inr False \<and>
   should_post_comment (demo_config\<lparr>severity_threshold := ''urgent''\<rparr>)
     [(''severity'', JStr ''medium'')] = Inr True"
  using comment_gate_threshold [of "[(''severity'', JStr ''high'')]" "''high''" demo_config]
    comment_gate_threshold [of "[(''severity'', JStr ''low'')]" "''low''" demo_config]
    comment_gate_threshold [of "[(''severity'', JStr ''medium'')]" "''medium''"
      "demo_config\<lparr>severity_threshold := ''urgent''\<rparr>"]
  by (simp add: demo_config_def spec_rank_def spec_threshold_def)

text \<open>
  Claim C10, as stated, fails. The severity \<^verbatim>\<open>['high']\<close>, a list, is not one of low,
  medium and high, but the gate does not treat the finding as one of severity low, which
  it suppresses at threshold medium: the look-up of the list in the table of levels
  raises TypeError.
\<close>

theorem unhashable_severity_raises:
  "JArr [JStr ''high''] \<notin> set valid_severities \<and>
   should_post_comment demo_config [(''severity'', JArr [JStr ''high''])] =
     Inl (TypeError (''unhashable type: '' @ quoted ''list'')) \<and>
   should_post_comment demo_config [(''severity'', JStr ''low'')] = Inr False"
  by (simp add: valid_severities_def should_post_comment_def table_get_def dict_get_def
        severity_levels_def unhashable_def demo_config_def)

text \<open>
  Claim C10, amended. At the comment gate a finding whose severity is missing, or is a
  value that can be a key of a dictionary (not a list and not a dictionary) other than
  low, medium and high, is treated as a finding of severity low, and is therefore
  suppressed at threshold medium; validation on ingestion gives the same finding the
  severity medium.
\<close>

theorem comment_gate_unknown_severity:
  assumes "map_of c ''severity'' = None \<or>
           (\<exists>v. map_of c ''severity'' = Some v \<and> hashable v \<and> v \<notin> set valid_severities)"
  shows "should_post_comment cfg c = should_post_comment cfg [(''severity'', JStr ''low'')] \<and>
         (severity_threshold cfg = ''medium'' \<longrightarrow> should_post_comment cfg c = Inr False) \<and>
         map_of (validate_comment c) ''severity'' = Some (JStr ''medium'')"
proof -
  have gate: "table_get severity_levels (dict_get c ''severity'' (JStr ''low'')) 1 = Inr 1"
    using assms
    by (auto simp: table_get_def dict_get_def severity_levels_def valid_severities_def
          split: json.splits)
  have low: "table_get severity_levels
               (dict_get [(''severity'', JStr ''low'')] ''severity'' (JStr ''low'')) 1 = Inr 1"
    by (simp add: table_get_def dict_get_def severity_levels_def)
  have val: "map_of (validate_comment c) ''severity'' = Some (JStr ''medium'')"
    using assms by (auto simp: validate_comment_def dict_get_def Let_def valid_severities_def)
  have thr: "severity_threshold cfg = ''medium'' \<Longrightarrow>
      table_get severity_levels (JStr (severity_threshold cfg)) 2 = Inr 2"
    by (simp add: table_get_def severity_levels_def)
  have eq: "should_post_comment cfg c = should_post_comment cfg [(''severity'', JStr ''low'')]"
    unfolding should_post_comment_def gate low ..
  have sup: "severity_threshold cfg = ''medium'' \<longrightarrow> should_post_comment cfg c = Inr False"
    unfolding should_post_comment_def gate using thr by auto
  show ?thesis
    using eq sup val by blast
qed

theorem comment_gate_unknown_severity_witness:
  "should_post_comment demo_config [(''severity'', JStr ''critical'')] = Inr False \<and>
   should_post_comment demo_config [(''title'', JStr ''t'')] = Inr False \<and>
   map_of (validate_comment [(''severity'', JStr ''critical'')]) ''severity'' = Some (JStr ''medium'')"
  using comment_gate_unknown_severity [of "[(''severity'', JStr ''critical'')]" demo_config]
    comment_gate_unknown_severity [of "[(''title'', JStr ''t'')]" demo_config]
  by (simp add: demo_config_def valid_severities_def should_post_comment_def table_get_def
        dict_get_def severity_levels_def)

section \<open>Properties of the file filter\<close>

lemma fnmatch_star_drop:
  "fnmatch s (CHR ''*'' # p) \<longleftrightarrow> (\<exists>k\<le>length s. fnmatch (drop k s) p)"
proof (induction s)
  case Nil
  show ?case by simp
next
  case (Cons x xs)
  have "fnmatch (x # xs) (CHR ''*'' # p) \<longleftrightarrow> fnmatch (x # xs) p \<or> fnmatch xs (CHR ''*'' # p)"
    by simp
  also have "\<dots> \<longleftrightarrow> fnmatch (x # xs) p \<or> (\<exists>k\<le>length xs. fnmatch (drop k xs) p)"
    using Cons.IH by simp
  also have "\<dots> \<longleftrightarrow> (\<exists>k\<le>length (x # xs). fnmatch (drop k (x # xs)) p)"
  proof
    assume "fnmatch (x # xs) p \<or> (\<exists>k\<le>length xs. fnmatch (drop k xs) p)"
    then show "\<exists>k\<le>length (x # xs). fnmatch (drop k (x # xs)) p"
    proof
      assume "fnmatch (x # xs) p"
      then show ?thesis by (intro exI[of _ 0]) simp
    next
      assume "\<exists>k\<le>length xs. fnmatch (drop k xs) p"
      then obtain k where "k \<le> length xs" "fnmatch (drop k xs) p" by blast
      then show ?thesis by (intro exI[of _ "Suc k"]) simp
    qed
  next
    assume "\<exists>k\<le>length (x # xs). fnmatch (drop k (x # xs)) p"
    then obtain k where k: "k \<le> length (x # xs)" "fnmatch (drop k (x # xs)) p" by blast
    show "fnmatch (x # xs) p \<or> (\<exists>k\<le>length xs. fnmatch (drop k xs) p)"
    proof (cases k)
      case 0
      with k show ?thesis by simp
    next
      case (Suc j)
      with k show ?thesis by auto
    qed
  qed
  finally show ?case .
qed

lemma fnmatch_star_run:
  "fnmatch s (CHR ''*'' # p) \<longleftrightarrow> (\<exists>r t. s = r @ t \<and> fnmatch t p)"
proof
  assume "fnmatch s (CHR ''*'' # p)"
  then obtain k where "fnmatch (drop k s) p" using fnmatch_star_drop by blast
  moreover have "s = take k s @ drop k s" by simp
  ultimately show "\<exists>r t. s = r @ t \<and> fnmatch t p" by blast
next
  assume "\<exists>r t. s = r @ t \<and> fnmatch t p"
  then obtain r t where "s = r @ t" "fnmatch t p" by blast
  then have "length r \<le> length s" "fnmatch (drop (length r) s) p" by simp_all
  then show "fnmatch s (CHR ''*'' # p)" using fnmatch_star_drop by blast
qed

lemma fnmatch_char:
  "c \<notin> {CHR ''*'', CHR ''?'', CHR ''[''} \<Longrightarrow>
     fnmatch s (c # p) \<longleftrightarrow> (\<exists>t. s = c # t \<and> fnmatch t p)"
  by (cases s) auto

lemma fnmatch_empty: "fnmatch s [] \<longleftrightarrow> s = []"
  by (cases s) simp_all

lemma matches_patterns_any:
  "matches_patterns (JStr s) pats =
     Inr (\<exists>pat\<in>set pats. strip pat \<noteq> [] \<and> fnmatch s (strip pat))"
  by (induction pats) auto

text \<open>
  Claim C7, as stated, fails: the pattern \<^verbatim>\<open>*.py\<close> matches the path \<^verbatim>\<open>src/a.py\<close>, so
  the star has matched across a separator, which the semantics of the specification
  excludes.
\<close>

theorem star_crosses_separator:
  "matches_patterns (JStr ''src/a.py'') [''*.py''] = Inr True \<and>
   \<not> spec_glob ''src/a.py'' ''*.py''"
  by (simp add: strip_def is_space_def)

text \<open>
  Claim C7, amended. For every file path and every list of include or exclude patterns,
  the path matches when it matches one of the patterns, stripped of surrounding white
  space and not empty, in the sense of \<^verbatim>\<open>fnmatch\<close>. There \<^verbatim>\<open>*\<close> matches any run of
  characters, the separator included: a path matches a star followed by a pattern when
  some final part of the path matches that pattern. Matching is case-sensitive: wherever
  it stands in the pattern, a character other than \<^verbatim>\<open>*\<close>, \<^verbatim>\<open>?\<close> and \<^verbatim>\<open>[\<close> matches
  that same character and no other, and the empty pattern matches the empty path only.
\<close>

theorem pattern_matching_semantics:
  "matches_patterns (JStr s) pats =
     Inr (\<exists>pat\<in>set pats. strip pat \<noteq> [] \<and> fnmatch s (strip pat)) \<and>
   (fnmatch s (CHR ''*'' # p) \<longleftrightarrow> (\<exists>r t. s = r @ t \<and> fnmatch t p)) \<and>
   (c \<notin> {CHR ''*'', CHR ''?'', CHR ''[''} \<longrightarrow>
      (fnmatch s (c # p) \<longleftrightarrow> (\<exists>t. s = c # t \<and> fnmatch t p))) \<and>
   (fnmatch s [] \<longleftrightarrow> s = [])"
  using matches_patterns_any [of s pats] fnmatch_star_run [of s p] fnmatch_char [of c s p]
    fnmatch_empty [of s]
  by blast

theorem pattern_matching_semantics_witness:
  "matches_patterns (JStr ''docs/api/index.md'') [''*.txt'', [CHR 0xA0] @ ''*.md ''] = Inr True \<and>
   fnmatch ''docs/api/index.md'' ''*.md'' \<and>
   \<not> fnmatch ''readme.md'' ''README*'' \<and>
   fnmatch ''README.md'' ''README*''"
  using pattern_matching_semantics
      [of "''docs/api/index.md''" "[''*.txt'', [CHR 0xA0] @ ''*.md '']" "''.md''" "CHR ''R''"]
    pattern_matching_semantics [of "''readme.md''" "[]" "[]" "CHR ''R''" ]
    pattern_matching_semantics [of "''README.md''" "[]" "[]" "CHR ''R''"]
  by (simp add: strip_def is_space_def)

lemma filter_files_as_filter:
  "filter_files cfg X = Inr Y \<Longrightarrow> Y = filter (\<lambda>fi. keep_file cfg fi = Inr True) X"
proof (induction X arbitrary: Y)
  case Nil
  then show ?case by simp
next
  case (Cons fi X)
  then show ?case by (auto split: sum.splits if_splits)
qed

lemma filter_files_kept:
  "\<forall>fi\<in>set Y. keep_file cfg fi = Inr True \<Longrightarrow> filter_files cfg Y = Inr Y"
  by (induction Y) auto

lemma keep_file_string_path:
  "file_path_of fi = Inr (JStr p) \<Longrightarrow> \<exists>b. keep_file cfg fi = Inr b"
proof -
  have mp: "\<exists>b. matches_patterns (JStr p) pats = Inr b" for pats
    by (induction pats) auto
  have ml: "\<exists>b. matches_languages (JStr p) ls = Inr b" for ls
    by (simp add: matches_languages_def)
  assume fp: "file_path_of fi = Inr (JStr p)"
  obtain b1 where b1: "matches_patterns (JStr p) (exclude_patterns cfg) = Inr b1"
    using mp by blast
  obtain b2 where b2: "matches_patterns (JStr p) (include_patterns cfg) = Inr b2"
    using mp by blast
  obtain b3 where b3: "matches_languages (JStr p) (languages cfg) = Inr b3"
    using ml by blast
  show ?thesis
    by (auto simp: keep_file_def fp b1 b2 b3)
qed

lemma filter_files_total:
  "\<forall>fi\<in>set X. \<exists>p. file_path_of fi = Inr (JStr p) \<Longrightarrow> \<exists>Y. filter_files cfg X = Inr Y"
proof (induction X)
  case Nil
  show ?case by simp
next
  case (Cons fi X)
  then obtain Y where Y: "filter_files cfg X = Inr Y" by auto
  from Cons.prems obtain p where "file_path_of fi = Inr (JStr p)" by auto
  then obtain b where "keep_file cfg fi = Inr b" using keep_file_string_path by blast
  with Y show ?case by simp
qed

text \<open>
  Claim C9. The file filter is idempotent: filtering the output of the filter with the
  same patterns and languages returns that output (and when the filter raises on a list,
  there is no output to filter). Its output is the sublist of the input, in the input's
  order, of the files that the loop body keeps, and it is defined on every list of files
  whose paths are strings.
\<close>

theorem filter_files_idempotent:
  "(case filter_files cfg X of Inl e \<Rightarrow> Inl e | Inr Y \<Rightarrow> filter_files cfg Y) = filter_files cfg X \<and>
   (\<forall>Y. filter_files cfg X = Inr Y \<longrightarrow>
      filter_files cfg Y = Inr Y \<and> subseq Y X \<and>
      Y = filter (\<lambda>fi. keep_file cfg fi = Inr True) X) \<and>
   ((\<forall>fi\<in>set X. \<exists>p. file_path_of fi = Inr (JStr p)) \<longrightarrow> (\<exists>Y. filter_files cfg X = Inr Y))"
proof -
  have idem: "filter_files cfg Y = Inr Y \<and> subseq Y X \<and>
      Y = filter (\<lambda>fi. keep_file cfg fi = Inr True) X"
    if "filter_files cfg X = Inr Y" for Y
  proof -
    from that have eq: "Y = filter (\<lambda>fi. keep_file cfg fi = Inr True) X"
      by (rule filter_files_as_filter)
    then have "\<forall>fi\<in>set Y. keep_file cfg fi = Inr True" by simp
    then have "filter_files cfg Y = Inr Y" by (rule filter_files_kept)
    moreover have "subseq Y X" using eq by simp
    ultimately show ?thesis using eq by blast
  qed
  have first: "(case filter_files cfg X of Inl e \<Rightarrow> Inl e | Inr Y \<Rightarrow> filter_files cfg Y) =
      filter_files cfg X"
  proof (cases "filter_files cfg X")
    case (Inl e)
    then show ?thesis by simp
  next
    case (Inr Y)
    from idem [OF Inr] have "filter_files cfg Y = Inr Y" by blast
    with Inr show ?thesis by simp
  qed
  show ?thesis
    using first idem filter_files_total [of X cfg] by blast
qed

theorem filter_files_idempotent_witness:
  "filter_files demo_config demo_files =
     Inr [demo_files ! 0, demo_files ! 4] \<and>
   filter_files demo_config [demo_files ! 0, demo_files ! 4] =
     Inr [demo_files ! 0, demo_files ! 4] \<and>
   subseq [demo_files ! 0, demo_files ! 4] demo_files"
proof -
  have run: "filter_files demo_config demo_files = Inr [demo_files ! 0, demo_files ! 4]"
    by (simp add: demo_config_def demo_files_def keep_file_def file_path_of_def dict_get_def
          matches_languages_def path_suffix_def path_name_def rfind_char_def lower_def
          lower_char_def upper_letters_def lower_letters_def language_extensions_def strip_def
          is_space_def)
  from filter_files_idempotent [of demo_config demo_files] run
  have "filter_files demo_config [demo_files ! 0, demo_files ! 4] =
          Inr [demo_files ! 0, demo_files ! 4] \<and>
        subseq [demo_files ! 0, demo_files ! 4] demo_files"
    by blast
  with run show ?thesis by blast
qed


section \<open>Properties of the review of a file\<close>

lemma map_of_ensure_field:
  "map_of (ensure_field f dflt d) k =
     (if k = f \<and> map_of d f = None then Some dflt else map_of d k)"
  by (auto simp: ensure_field_def update_conv')

lemma map_of_ensure_list:
  "map_of (ensure_list f d) k =
     (if k = f then Some (case map_of d f of Some (JArr xs) \<Rightarrow> JArr xs | _ \<Rightarrow> JArr [])
      else map_of d k)"
  by (auto simp: ensure_list_def update_conv' split: option.splits json.splits)

lemma valid_finding_validate_comment: "valid_finding (JObj (validate_comment c))"
  by (simp add: valid_finding_def validate_comment_def Let_def valid_severities_def
        valid_categories_def)

lemma valid_validate_comments: "list_all valid_finding (validate_comments cs)"
  by (induction cs rule: validate_comments.induct) (simp_all add: valid_finding_validate_comment)

lemma clamp_score_range:
  "\<exists>x. number_value (clamp_score score) = Some x \<and> 1 \<le> x \<and> x \<le> 10"
  by (simp add: clamp_score_def)

text \<open>
  The direct path: whatever \<^verbatim>\<open>_validate_review_result\<close> returns is in the shape of a
  FileReviewResult.
\<close>

lemma validate_dict_shape:
  assumes "validate_dict L d = Inr d'"
  shows "validated_shape (JObj d')"
proof -
  define r1 where "r1 = ensure_field ''comments'' (JArr [])
                 (ensure_field ''summary'' (JStr [])
                   (ensure_field ''overall_score'' (JStr []) d))"
  from assms obtain score cs where
    sc: "(case py_float L (dict_get r1 ''overall_score'' JNull) of
                 Inr score \<Rightarrow> Inr (clamp_score score)
               | Inl (ValueError msg) \<Rightarrow> Inr (JInt 5)
               | Inl (JSONDecodeError msg) \<Rightarrow> Inr (JInt 5)
               | Inl (TypeError msg) \<Rightarrow> Inr (JInt 5)
               | Inl e \<Rightarrow> Inl e) = Inr score"
    and d': "d' = ensure_list ''recommendations''
                           (ensure_list ''positive_aspects''
                             (AList.update ''comments'' (JArr (validate_comments cs))
                               (AList.update ''overall_score'' score r1)))"
    unfolding validate_dict_def r1_def [symmetric] Let_def
    by (auto split: sum.splits)
  from sc have "score = JInt 5 \<or> (\<exists>x. score = clamp_score x)"
    by (auto split: sum.splits py_error.splits)
  then obtain x where x: "number_value score = Some x" "1 \<le> x" "x \<le> 10"
    using clamp_score_range by auto
  have summ: "map_of r1 ''summary'' \<noteq> None"
    by (simp add: r1_def map_of_ensure_field)
  show ?thesis
    using x summ
    by (simp add: validated_shape_def d' map_of_ensure_list update_conv' valid_validate_comments)
qed

lemma validate_review_result_shape:
  "validate_review_result L v = Inr d' \<Longrightarrow> validated_shape (JObj d')"
  by (cases v) (simp_all add: validate_review_result_def validate_dict_shape)

lemma direct_path_validated:
  "text \<noteq> [] \<Longrightarrow> json_loads L text = Inr v \<Longrightarrow> validate_review_result L v = Inr d' \<Longrightarrow>
     review_code L (Inr text) = JObj d' \<and> validated_shape (JObj d')"
  by (simp add: review_code_def validate_review_result_shape)

lemma fallback_response_shape:
  "validated_shape fallback_response \<and>
   (\<exists>c. findings_of fallback_response = [JObj c] \<and>
        map_of c ''severity'' = Some (JStr ''medium'') \<and>
        map_of c ''category'' = Some (JStr ''quality''))"
  by (simp add: validated_shape_def fallback_response_def valid_finding_def findings_of_def
        dict_get_def valid_severities_def valid_categories_def)

lemma demo_fenced_search: "fenced_search demo_fenced_text = Some demo_review_text"
  by (simp add: demo_fenced_text_def demo_review_text_def fenced_at_def startswith_def
        is_space_def)

lemma demo_fenced_not_json:
  "demo_loads demo_fenced_text = Inl (JSONDecodeError ''Expecting value: line 1 column 1 (char 0)'')"
  by (simp add: demo_loads_def demo_fenced_text_def demo_review_text_def
        demo_quoting_json_text_def demo_quoting_text_def)

lemma demo_direct_result:
  "review_code demo_lib (Inr demo_review_text) =
     JObj [(''overall_score'', JInt 10),
           (''comments'',
            JArr [JObj [(''line_number'', JNull), (''severity'', JStr ''medium''),
                        (''category'', JStr ''quality''), (''title'', JStr ''SQL injection''),
                        (''description'', JStr []), (''suggestion'', JStr []),
                        (''impact'', JStr [])]]),
           (''summary'', JStr []), (''positive_aspects'', JArr []),
           (''recommendations'', JArr [])]"
proof -
  have ne: "demo_review_text \<noteq> []"
    by (simp add: demo_review_text_def)
  have ld: "json_loads demo_lib demo_review_text = Inr demo_review_json"
    by (simp add: demo_lib_def demo_loads_def)
  show ?thesis
    by (simp add: review_code_def ne ld)
       (simp add: validate_review_result_def validate_dict_def demo_review_json_def
          ensure_field_def ensure_list_def dict_get_def demo_lib_def demo_float_def Let_def
          clamp_score_def validate_comment_def valid_severities_def valid_categories_def)
qed

lemma demo_quoting_search: "fenced_search demo_quoting_text = Some ''{x}''"
  by (simp add: demo_quoting_text_def demo_quoting_json_text_def fenced_at_def startswith_def
        is_space_def)

lemma demo_quoting_span: "brace_span demo_quoting_text = Some demo_quoting_json_text"
  by (simp add: demo_quoting_text_def demo_quoting_json_text_def brace_span_def find_char_def
        rfind_char_def)

text \<open>
  Claim C3 fails on the code. The model answers with a review between fences, whose
  score is 12 and whose finding has the severity \<^verbatim>\<open>critical\<close>. The text is not JSON as
  a whole, so the fenced block is extracted and parsed, and the result is returned as
  parsed: it is not in the shape of a FileReviewResult. The same review sent without
  the fences goes through \<^verbatim>\<open>_validate_review_result\<close> and comes back with the score 10
  and the severity medium. Second, for a response whose fenced block does not parse the
  brace span is not tried: the answer \<^verbatim>\<open>{"summary": "see ```{x}```"} Bye\<close> gets the
  synthetic result although its outermost brace span is the JSON object.
\<close>

theorem extracted_result_is_not_validated:
  "review_code demo_lib (Inr demo_fenced_text) = demo_review_json \<and>
   \<not> validated_shape (review_code demo_lib (Inr demo_fenced_text)) \<and>
   validated_shape (review_code demo_lib (Inr demo_review_text)) \<and>
   review_code demo_lib (Inr demo_quoting_text) = fallback_response \<and>
   brace_span demo_quoting_text = Some demo_quoting_json_text \<and>
   json_loads demo_lib demo_quoting_json_text = Inr demo_quoting_json"
proof -
  have ne: "demo_fenced_text \<noteq> []" "demo_quoting_text \<noteq> []"
    by (simp_all add: demo_fenced_text_def demo_quoting_text_def demo_quoting_json_text_def)
  have a: "review_code demo_lib (Inr demo_fenced_text) = demo_review_json"
    by (simp add: review_code_def ne demo_lib_def demo_fenced_not_json
          extract_json_from_response_def demo_fenced_search)
       (simp add: demo_loads_def)
  have b: "\<not> validated_shape demo_review_json"
    by (simp add: validated_shape_def demo_review_json_def)
  have c: "validated_shape (review_code demo_lib (Inr demo_review_text))"
    unfolding demo_direct_result
    by (simp add: validated_shape_def valid_finding_def valid_severities_def
          valid_categories_def)
  have l1: "demo_loads demo_quoting_text =
      Inl (JSONDecodeError ''Extra data: line 1 column 30 (char 29)'')"
    by (simp add: demo_loads_def demo_quoting_text_def demo_quoting_json_text_def
          demo_review_text_def)
  have l2: "demo_loads ''{x}'' =
      Inl (JSONDecodeError
             ''Expecting property name enclosed in double quotes: line 1 column 2 (char 1)'')"
    by (simp add: demo_loads_def demo_quoting_text_def demo_quoting_json_text_def
          demo_review_text_def)
  have d: "review_code demo_lib (Inr demo_quoting_text) = fallback_response"
    by (simp add: review_code_def ne demo_lib_def l1 l2 extract_json_from_response_def
          demo_quoting_search)
  have e: "json_loads demo_lib demo_quoting_json_text = Inr demo_quoting_json"
    by (simp add: demo_lib_def demo_loads_def demo_quoting_json_text_def demo_review_text_def)
  show ?thesis
    unfolding a using b c d e demo_quoting_span by simp
qed

text \<open>
  Claim C1 fails on the code. The content of the file is fetched and the call to the
  model raises: \<^verbatim>\<open>review_code\<close> catches the exception and returns an error record,
  \<^verbatim>\<open>_review_file\<close> wraps it into a review, the loop keeps the review, and the summary
  counts one reviewed file with the default score 5. By contrast, a file whose content
  cannot be fetched is skipped.
\<close>

theorem failed_review_is_kept:
  "review_files demo_config demo_lib failing_services [[(''path'', JStr ''src/app.py'')]] =
     Inr [failed_review] \<and>
   map_sum id total_files_reviewed (generate_summary [failed_review]) = Inr 1 \<and>
   map_sum id average_score (generate_summary [failed_review]) = Inr 5 \<and>
   review_files demo_config demo_lib missing_services [[(''path'', JStr ''src/app.py'')]] = Inr []"
proof -
  have kept: "review_files demo_config demo_lib failing_services
                [[(''path'', JStr ''src/app.py'')]] = Inr [failed_review]"
    by (simp add: review_file_def file_path_of_def failing_services_def review_code_def
          error_result_def failed_review_def)
  have skipped: "review_files demo_config demo_lib missing_services
                   [[(''path'', JStr ''src/app.py'')]] = Inr []"
    by (simp add: review_file_def file_path_of_def missing_services_def)
  have files: "map_sum id total_files_reviewed (generate_summary [failed_review]) = Inr 1"
    by code_simp
  have score: "map_sum id average_score (generate_summary [failed_review]) = Inr 5"
    by code_simp
  from kept files score skipped show ?thesis by simp
qed

section \<open>Properties of the JUnit report\<close>

lemma validated_shapeD:
  assumes "validated_shape v"
  shows "\<exists>d n x cs. v = JObj d \<and> map_of d ''overall_score'' = Some n \<and>
           number_value n = Some x \<and> 1 \<le> x \<and> x \<le> 10 \<and>
           map_of d ''comments'' = Some (JArr cs) \<and> list_all valid_finding cs"
proof -
  from assms obtain d where d: "v = JObj d"
    by (cases v) (simp_all add: validated_shape_def)
  from assms d have A: "(case map_of d ''overall_score'' of
        Some n \<Rightarrow> (case number_value n of Some x \<Rightarrow> 1 \<le> x \<and> x \<le> 10 | None \<Rightarrow> False)
      | None \<Rightarrow> False)"
    and B: "(case map_of d ''comments'' of
        Some (JArr cs) \<Rightarrow> list_all valid_finding cs | _ \<Rightarrow> False)"
    by (simp_all add: validated_shape_def)
  from A obtain n x where n: "map_of d ''overall_score'' = Some n"
    "number_value n = Some x" "1 \<le> x" "x \<le> 10"
    by (auto split: option.splits)
  obtain cs where cs: "map_of d ''comments'' = Some (JArr cs)" "list_all valid_finding cs"
  proof (cases "map_of d ''comments''")
    case None
    with B show ?thesis by simp
  next
    case (Some j)
    with B that show ?thesis by (cases j) simp_all
  qed
  from d n cs show ?thesis by blast
qed

lemma issues_with_filter:
  "issues_with sev cs = Inr ds \<Longrightarrow> with_severity sev cs = map JObj ds"
proof (induction cs arbitrary: ds)
  case Nil
  then show ?case by (simp add: with_severity_def)
next
  case (Cons c cs)
  from Cons.prems obtain comment rest where
    c: "c = JObj comment" and rest: "issues_with sev cs = Inr rest"
    and ds: "ds = (if map_of comment ''severity'' = Some (JStr sev) then comment # rest else rest)"
    by (auto split: json.splits sum.splits)
  from Cons.IH [OF rest] have "with_severity sev cs = map JObj rest" .
  then show ?case
    by (simp add: ds c with_severity_def severity_of_def)
qed

lemma issues_with_valid:
  "list_all valid_finding cs \<Longrightarrow> \<exists>ds. issues_with sev cs = Inr ds"
proof (induction cs)
  case Nil
  show ?case by simp
next
  case (Cons c cs)
  from Cons.prems obtain comment where "c = JObj comment"
    by (cases c) (simp_all add: valid_finding_def)
  moreover from Cons obtain ds where "issues_with sev cs = Inr ds" by auto
  ultimately show ?case by simp
qed

text \<open>The text that the code joins is the text of the specification.\<close>

lemma join_lines: "join [CHR 0x0A] ls = spec_lines ls"
proof (induction ls rule: induct_list012)
  case 1
  show ?case by simp
next
  case (2 x)
  show ?case by simp
next
  case (3 x y zs)
  then show ?case by simp
qed

lemma issue_line_spec: "issue_line L d = spec_line L (JObj d)"
  by (simp add: issue_line_def spec_line_def field_text_def dict_get_def split: option.splits)

lemma issues_text_spec: "issues_text L ds = spec_lines (map (spec_line L) (map JObj ds))"
proof -
  have "map (issue_line L) ds = map (spec_line L) (map JObj ds)"
    by (induction ds) (simp_all add: issue_line_spec)
  then show ?thesis
    unfolding issues_text_def join_lines by (rule arg_cong)
qed

lemma junit_testcase_class:
  assumes "junit_testcase L r = Inr tc"
  shows "junit_class L r tc"
proof -
  from assms obtain result comments high medium where
    res: "review_result r = JObj result"
    and it: "py_iter (dict_get result ''comments'' (JArr [])) = Inr comments"
    and hi: "issues_with ''high'' comments = Inr high"
    and me: "issues_with ''medium'' comments = Inr medium"
    and tc: "tc = \<lparr>tc_name = file_path r,
                   tc_failure =
                     (if high \<noteq> []
                      then Some (''High severity issues found in '' @ py_str L (file_path r),
                                 issues_text L high)
                      else None),
                   tc_error =
                     (if medium \<noteq> [] \<and> \<not> high \<noteq> []
                      then Some (''Medium severity issues found in '' @ py_str L (file_path r),
                                 issues_text L medium)
                      else None)\<rparr>"
    by (auto simp: junit_testcase_def split: json.splits sum.splits)
  have fs: "findings_of (review_result r) = comments"
    by (simp add: findings_of_def res it)
  note h = issues_with_filter [OF hi] and m = issues_with_filter [OF me]
  show ?thesis
    unfolding junit_class_def Let_def fs h m
    by (simp add: tc spec_node_def issues_text_spec)
qed

lemma junit_testcases_class:
  "junit_testcases L rs = Inr tcs \<Longrightarrow>
     list_all2 (junit_class L) (filter (\<lambda>r. truthy (review_result r)) rs) tcs"
proof (induction rs arbitrary: tcs)
  case Nil
  then show ?case by simp
next
  case (Cons r rs)
  show ?case
  proof (cases "truthy (review_result r)")
    case False
    with Cons show ?thesis by simp
  next
    case True
    with Cons.prems obtain tc rest where
      tc: "junit_testcase L r = Inr tc" and rest: "junit_testcases L rs = Inr rest"
      and tcs: "tcs = tc # rest"
      by (auto split: sum.splits)
    from junit_testcase_class [OF tc] Cons.IH [OF rest] True show ?thesis
      by (simp add: tcs)
  qed
qed

lemma xml_text_append: "xml_text (a @ b) \<longleftrightarrow> xml_text a \<and> xml_text b"
  by (simp add: xml_text_def)

lemma xml_text_lines: "list_all xml_text ls \<Longrightarrow> xml_text (spec_lines ls)"
proof (cases ls)
  case Nil
  then show ?thesis by (simp add: xml_text_def)
next
  case (Cons l rest)
  assume "list_all xml_text ls"
  with Cons have l: "xml_text l" and rest: "list_all xml_text rest" by simp_all
  from rest have "xml_text (concat (map (\<lambda>x. CHR 0x0A # x) rest))"
    by (induction rest) (simp_all add: xml_text_def xml_char_def)
  with l Cons show ?thesis by (simp add: xml_text_append)
qed

lemma junit_testcase_valid:
  assumes v: "validated_shape (review_result r)"
    and p: "file_path r = JStr p" "xml_text p" "xml_text (py_str L (file_path r))"
    and f: "\<forall>c\<in>set (findings_of (review_result r)). xml_text (spec_line L c)"
  shows "\<exists>tc. junit_testcase L r = Inr tc \<and> is_string (tc_name tc) \<and>
           list_all xml_text (testcase_strings tc)"
proof -
  from validated_shapeD [OF v] obtain d cs where
    res: "review_result r = JObj d"
    and cm: "map_of d ''comments'' = Some (JArr cs)" "list_all valid_finding cs"
    by blast
  obtain high where hi: "issues_with ''high'' cs = Inr high"
    using issues_with_valid [OF cm(2)] by blast
  obtain medium where me: "issues_with ''medium'' cs = Inr medium"
    using issues_with_valid [OF cm(2)] by blast
  have fs: "findings_of (review_result r) = cs"
    by (simp add: findings_of_def res dict_get_def cm)
  have sub: "set (with_severity sev cs) \<subseteq> set cs" for sev
    by (auto simp: with_severity_def)
  have legal: "xml_text (issues_text L ds)" if "issues_with sev cs = Inr ds" for sev ds
  proof -
    from issues_with_filter [OF that] sub [of sev] f
    have "list_all xml_text (map (spec_line L) (map JObj ds))"
      unfolding fs by (auto simp: list_all_iff)
    then show ?thesis
      unfolding issues_text_spec by (rule xml_text_lines)
  qed
  show ?thesis
    using p legal [OF hi] legal [OF me]
    by (simp add: junit_testcase_def res dict_get_def cm hi me is_string_def
          testcase_strings_def node_strings_def xml_text_def xml_char_def)
qed

lemma junit_testcases_valid:
  "\<forall>r\<in>set rs. validated_shape (review_result r) \<and>
       (\<exists>p. file_path r = JStr p \<and> xml_text p) \<and> xml_text (py_str L (file_path r)) \<and>
       (\<forall>c\<in>set (findings_of (review_result r)). xml_text (spec_line L c)) \<Longrightarrow>
     \<exists>tcs. junit_testcases L rs = Inr tcs \<and>
       list_all (\<lambda>tc. is_string (tc_name tc)) tcs \<and>
       list_all (\<lambda>tc. list_all xml_text (testcase_strings tc)) tcs"
proof (induction rs)
  case Nil
  show ?case by simp
next
  case (Cons r rs)
  from Cons.prems obtain p where
    "validated_shape (review_result r)" "file_path r = JStr p" "xml_text p"
    "xml_text (py_str L (file_path r))"
    "\<forall>c\<in>set (findings_of (review_result r)). xml_text (spec_line L c)"
    by auto
  from junit_testcase_valid [OF this] obtain tc where
    tc: "junit_testcase L r = Inr tc" "is_string (tc_name tc)"
      "list_all xml_text (testcase_strings tc)"
    by blast
  from Cons obtain tcs where
    tcs: "junit_testcases L rs = Inr tcs" "list_all (\<lambda>tc. is_string (tc_name tc)) tcs"
      "list_all (\<lambda>tc. list_all xml_text (testcase_strings tc)) tcs"
    by auto
  show ?case
    by (cases "truthy (review_result r)") (simp_all add: tc tcs)
qed

text \<open>
  When every name is a string, the serialisation succeeds exactly when no string of the
  document holds a character that XML does not allow.
\<close>

lemma serialise_strings:
  assumes "list_all (\<lambda>tc. is_string (tc_name tc)) tcs"
  shows "serialise L tcs = None \<longleftrightarrow>
           list_all (\<lambda>tc. list_all xml_text (testcase_strings tc)) tcs"
proof -
  from assms have "filter (\<lambda>tc. \<not> serialisable_name (tc_name tc)) tcs = []"
    by (auto simp: filter_empty_conv list_all_iff is_string_def serialisable_name_def
          split: json.splits)
  then show ?thesis
    using assms by (simp add: serialise_def parses_def)
qed

lemma junit_names:
  "junit_testcases L rs = Inr tcs \<Longrightarrow> \<forall>r\<in>set rs. is_string (file_path r) \<Longrightarrow>
     list_all (\<lambda>tc. is_string (tc_name tc)) tcs"
proof (induction rs arbitrary: tcs)
  case Nil
  then show ?case by simp
next
  case (Cons r rs)
  show ?case
  proof (cases "truthy (review_result r)")
    case False
    with Cons show ?thesis by simp
  next
    case True
    with Cons.prems obtain tc rest where
      tc: "junit_testcase L r = Inr tc" and rest: "junit_testcases L rs = Inr rest"
      and tcs: "tcs = tc # rest"
      by (auto split: sum.splits)
    from tc have "tc_name tc = file_path r"
      by (auto simp: junit_testcase_def split: json.splits sum.splits)
    with Cons.IH [OF rest] Cons.prems(2) show ?thesis
      by (simp add: tcs)
  qed
qed

lemma demo_testcases:
  "junit_testcases demo_lib demo_reviews =
     Inr [\<lparr>tc_name = JStr ''a.py'',
           tc_failure = Some (''High severity issues found in a.py'',
                              ''Injection: details'' @ [CHR 0x0A] @ ''Overflow: details''),
           tc_error = None\<rparr>,
          \<lparr>tc_name = JStr ''b.py'', tc_failure = None,
           tc_error = Some (''Medium severity issues found in b.py'', ''Naming: details'')\<rparr>,
          \<lparr>tc_name = JStr ''c.py'', tc_failure = None, tc_error = None\<rparr>]"
  by (simp add: demo_reviews_def review_with_def finding_def junit_testcase_def dict_get_def
        issues_text_def issue_line_def demo_lib_def demo_str_def)

text \<open>
  Claim C2. Whenever the test-result document is produced, it has one test case per
  reviewed file (a review whose result is not falsy), in order, and each test case is
  classified by the three-way mapping: a high finding gives a failure node and no error
  node; a medium finding and no high one gives an error node and no failure node;
  otherwise, so with low findings only or with none, the test case has neither node. The
  node is built from the findings of its severity: its message names the file and its
  text has one line for each of these findings, the title, a colon and the description.
  When the paths are strings, no string of a document that is produced holds a
  character that XML does not allow. The document is produced for every sequence of
  results in the validated shape whose paths are strings and whose paths, titles and
  descriptions are free of such characters.
\<close>

theorem junit_three_way_mapping:
  "(\<forall>doc. generate_junit_report L summ reviews = Inr doc \<longrightarrow>
      list_all2 (junit_class L) (filter (\<lambda>r. truthy (review_result r)) reviews) (testcases doc) \<and>
      ((\<forall>r\<in>set reviews. is_string (file_path r)) \<longrightarrow>
         (\<forall>tc\<in>set (testcases doc). list_all xml_text (testcase_strings tc)))) \<and>
   ((\<forall>r\<in>set reviews.
        validated_shape (review_result r) \<and>
        (\<exists>p. file_path r = JStr p \<and> xml_text p) \<and> xml_text (py_str L (file_path r)) \<and>
        (\<forall>c\<in>set (findings_of (review_result r)). xml_text (spec_line L c))) \<longrightarrow>
      (\<exists>doc. generate_junit_report L summ reviews = Inr doc))"
proof -
  have a: "list_all2 (junit_class L) (filter (\<lambda>r. truthy (review_result r)) reviews) (testcases doc) \<and>
      ((\<forall>r\<in>set reviews. is_string (file_path r)) \<longrightarrow>
         (\<forall>tc\<in>set (testcases doc). list_all xml_text (testcase_strings tc)))"
    if "generate_junit_report L summ reviews = Inr doc" for doc
  proof -
    from that obtain tcs where
      tcs: "junit_testcases L reviews = Inr tcs" "testcases doc = tcs" "serialise L tcs = None"
      by (auto simp: generate_junit_report_def split: sum.splits option.splits)
    have one: "list_all2 (junit_class L) (filter (\<lambda>r. truthy (review_result r)) reviews)
        (testcases doc)"
      using tcs junit_testcases_class by simp
    have two: "\<forall>tc\<in>set (testcases doc). list_all xml_text (testcase_strings tc)"
      if "\<forall>r\<in>set reviews. is_string (file_path r)"
      using serialise_strings [OF junit_names [OF tcs(1) that]] tcs
      by (simp add: list_all_iff)
    from one two show ?thesis by blast
  qed
  have b: "\<exists>doc. generate_junit_report L summ reviews = Inr doc"
    if "\<forall>r\<in>set reviews.
        validated_shape (review_result r) \<and>
        (\<exists>p. file_path r = JStr p \<and> xml_text p) \<and> xml_text (py_str L (file_path r)) \<and>
        (\<forall>c\<in>set (findings_of (review_result r)). xml_text (spec_line L c))"
  proof -
    from junit_testcases_valid [OF that] obtain tcs where
      tcs: "junit_testcases L reviews = Inr tcs" "list_all (\<lambda>tc. is_string (tc_name tc)) tcs"
        "list_all (\<lambda>tc. list_all xml_text (testcase_strings tc)) tcs"
      by blast
    from serialise_strings [OF tcs(2)] tcs(3) have "serialise L tcs = None"
      by simp
    with tcs(1) show ?thesis
      by (simp add: generate_junit_report_def)
  qed
  from a b show ?thesis by blast
qed

theorem junit_three_way_mapping_witness:
  "map_sum id testcases (generate_junit_report demo_lib demo_summary demo_reviews) =
     Inr [\<lparr>tc_name = JStr ''a.py'',
           tc_failure = Some (''High severity issues found in a.py'',
                              ''Injection: details'' @ [CHR 0x0A] @ ''Overflow: details''),
           tc_error = None\<rparr>,
          \<lparr>tc_name = JStr ''b.py'', tc_failure = None,
           tc_error = Some (''Medium severity issues found in b.py'', ''Naming: details'')\<rparr>,
          \<lparr>tc_name = JStr ''c.py'', tc_failure = None, tc_error = None\<rparr>] \<and>
   list_all2 (junit_class demo_lib) demo_reviews
     [\<lparr>tc_name = JStr ''a.py'',
       tc_failure = Some (''High severity issues found in a.py'',
                          ''Injection: details'' @ [CHR 0x0A] @ ''Overflow: details''),
       tc_error = None\<rparr>,
      \<lparr>tc_name = JStr ''b.py'', tc_failure = None,
       tc_error = Some (''Medium severity issues found in b.py'', ''Naming: details'')\<rparr>,
      \<lparr>tc_name = JStr ''c.py'', tc_failure = None, tc_error = None\<rparr>] \<and>
   isl (generate_junit_report demo_lib demo_summary [bell_review])"
proof -
  define tcs where "tcs =
     [\<lparr>tc_name = JStr ''a.py'',
       tc_failure = Some (''High severity issues found in a.py'',
                          ''Injection: details'' @ [CHR 0x0A] @ ''Overflow: details''),
       tc_error = None\<rparr>,
      \<lparr>tc_name = JStr ''b.py'', tc_failure = None,
       tc_error = Some (''Medium severity issues found in b.py'', ''Naming: details'')\<rparr>,
      \<lparr>tc_name = JStr ''c.py'', tc_failure = None, tc_error = None\<rparr>]"
  have ser: "serialise demo_lib tcs = None"
    by (simp add: tcs_def serialise_def serialisable_name_def parses_def is_string_def
          testcase_strings_def node_strings_def xml_text_def xml_char_def)
  have run: "generate_junit_report demo_lib demo_summary demo_reviews =
      Inr \<lparr>ts_tests = 3, ts_failures = 2, ts_errors = 2, testcases = tcs\<rparr>"
    unfolding generate_junit_report_def demo_testcases tcs_def [symmetric]
    by (simp add: ser demo_summary_def counter_get_def dict_key_def)
  have all: "filter (\<lambda>r. truthy (review_result r)) demo_reviews = demo_reviews"
    by (simp add: demo_reviews_def review_with_def)
  from junit_three_way_mapping [of demo_lib demo_summary demo_reviews] run
  have cls: "list_all2 (junit_class demo_lib) (filter (\<lambda>r. truthy (review_result r)) demo_reviews)
          tcs"
    by auto
  have bell: "isl (generate_junit_report demo_lib demo_summary [bell_review])"
  proof (rule ccontr)
    assume "\<not> isl (generate_junit_report demo_lib demo_summary [bell_review])"
    then obtain doc where doc: "generate_junit_report demo_lib demo_summary [bell_review] = Inr doc"
      by (cases "generate_junit_report demo_lib demo_summary [bell_review]") simp_all
    then have tc: "testcases doc =
        [\<lparr>tc_name = JStr ''d.py'',
          tc_failure = Some (''High severity issues found in d.py'', ''Bell'' @ [CHR 0x07] @ '': details''),
          tc_error = None\<rparr>]"
      by (auto simp: generate_junit_report_def bell_review_def review_with_def finding_def
            junit_testcase_def dict_get_def issues_text_def issue_line_def demo_lib_def
            demo_str_def split: option.splits)
    from junit_three_way_mapping [of demo_lib demo_summary "[bell_review]"] doc
    have "\<forall>tc\<in>set (testcases doc). list_all xml_text (testcase_strings tc)"
      by (simp add: bell_review_def review_with_def is_string_def)
    then show False
      unfolding tc by (simp add: testcase_strings_def node_strings_def xml_text_def xml_char_def)
  qed
  from cls bell show ?thesis
    unfolding all run tcs_def by simp
qed

section \<open>Properties of the webhook server\<close>

lemmas web_eval =
  run_events_def init_server_def demo_web_config_def demo_request_def gitlab_webhook_def
  handle_payload_def attr_get_def dict_get_def demo_lib_def demo_str_def thread_start_def
  thread_finish_def Let_def

lemma demo_running_server_eq:
  "demo_running_server =
     \<lparr>active_reviews =
        [(''7:42'', [(''started_at'', JStr ''2024-05-01T10:00:00''), (''status'', JStr ''running''),
                    (''mr_iid'', JInt 42), (''project_id'', JInt 7)])],
      semaphore = 2,
      jobs = [\<lparr>review_key = ''7:42'', job_mr_iid = JInt 42, job_project_id = JInt 7,
               job_phase = Running\<rparr>]\<rparr>"
  by (simp add: demo_running_server_def web_eval)

lemma demo_completed_server_eq:
  "demo_completed_server =
     \<lparr>active_reviews =
        [(''7:42'', [(''started_at'', JStr ''2024-05-01T10:00:00''), (''status'', JStr ''completed''),
                    (''mr_iid'', JInt 42), (''project_id'', JInt 7),
                    (''completed_at'', JStr ''2024-05-01T10:01:00'')])],
      semaphore = 3,
      jobs = [\<lparr>review_key = ''7:42'', job_mr_iid = JInt 42, job_project_id = JInt 7,
               job_phase = Sleeping\<rparr>]\<rparr>"
  by (simp add: demo_completed_server_def web_eval)

lemma demo_failed_server_eq:
  "demo_failed_server =
     \<lparr>active_reviews =
        [(''7:42'', [(''started_at'', JStr ''2024-05-01T10:00:00''), (''status'', JStr ''failed''),
                    (''mr_iid'', JInt 42), (''project_id'', JInt 7),
                    (''error'', JStr ''connection reset''),
                    (''completed_at'', JStr ''2024-05-01T10:01:00'')])],
      semaphore = 3,
      jobs = [\<lparr>review_key = ''7:42'', job_mr_iid = JInt 42, job_project_id = JInt 7,
               job_phase = Sleeping\<rparr>]\<rparr>"
  by (simp add: demo_failed_server_def web_eval)

text \<open>
  Claim C4 fails on the code. After the review of merge request 42 of project 7 has
  completed (or failed) and before its record is removed, a new trigger for the same
  merge request is answered with \<^verbatim>\<open>Review already in progress\<close>: no thread is started
  and the old record stays. The test of line 103 looks at the presence of the key, not
  at the status of the record.
\<close>

theorem terminal_record_blocks_new_trigger:
  "map_of (active_reviews demo_completed_server) ''7:42'' =
     Some [(''started_at'', JStr ''2024-05-01T10:00:00''), (''status'', JStr ''completed''),
           (''mr_iid'', JInt 42), (''project_id'', JInt 7),
           (''completed_at'', JStr ''2024-05-01T10:01:00'')] \<and>
   gitlab_webhook demo_web_config demo_lib demo_completed_server demo_request =
     (in_progress_response, demo_completed_server) \<and>
   gitlab_webhook demo_web_config demo_lib demo_failed_server demo_request =
     (in_progress_response, demo_failed_server)"
  unfolding demo_completed_server_eq demo_failed_server_eq
  by (simp add: demo_web_config_def demo_request_def gitlab_webhook_def handle_payload_def
        attr_get_def dict_get_def demo_lib_def demo_str_def in_progress_response_def Let_def)

text \<open>
  Claim C6. When a merge request event arrives for a project and merge request whose
  record in the table of active reviews has the status running, the handler starts no
  review and leaves the table and the threads as they are; an event that passes the
  earlier checks of the handler (token, action among open, update, reopen) is answered
  with \<^verbatim>\<open>Review already in progress\<close>.
\<close>

theorem webhook_dedup:
  assumes body: "body req = Inr (JObj d)"
    and token: "webhook_secret wc = [] \<or> gitlab_token req = webhook_secret wc"
    and kind: "map_of d ''object_kind'' = Some (JStr ''merge_request'')"
    and attrs: "map_of d ''object_attributes'' = Some (JObj mr)"
    and iid: "map_of mr ''iid'' = Some mr_iid" "truthy mr_iid"
    and proj: "map_of d ''project'' = Some (JObj pr)"
    and pid: "map_of pr ''id'' = Some project_id" "truthy project_id"
    and running: "map_of (active_reviews sv) (py_str L project_id @ '':'' @ py_str L mr_iid) = Some st"
      "map_of st ''status'' = Some (JStr ''running'')"
  shows "snd (gitlab_webhook wc L sv req) = sv \<and>
         (dict_get mr ''action'' (JStr []) \<in> {JStr ''open'', JStr ''update'', JStr ''reopen''} \<longrightarrow>
            fst (gitlab_webhook wc L sv req) =
              ([(''message'', JStr ''Review already in progress''),
                (''review_id'', JStr (py_str L project_id @ '':'' @ py_str L mr_iid))], 202))"
proof -
  from kind have ne: "d \<noteq> []" by auto
  show ?thesis
    using token running(1)
    by (auto simp: gitlab_webhook_def body ne handle_payload_def attr_get_def dict_get_def
          kind attrs iid proj pid Let_def)
qed

theorem webhook_dedup_witness:
  "gitlab_webhook demo_web_config demo_lib demo_running_server demo_request =
     (in_progress_response, demo_running_server) \<and>
   length (jobs demo_running_server) = 1"
proof -
  have key: "py_str demo_lib (JInt 7) @ '':'' @ py_str demo_lib (JInt 42) = ''7:42''"
    by (simp add: demo_lib_def demo_str_def)
  have running:
    "map_of (active_reviews demo_running_server)
       (py_str demo_lib (JInt 7) @ '':'' @ py_str demo_lib (JInt 42)) =
     Some [(''started_at'', JStr ''2024-05-01T10:00:00''), (''status'', JStr ''running''),
           (''mr_iid'', JInt 42), (''project_id'', JInt 7)]"
    unfolding key by (simp add: demo_running_server_eq)
  have res: "snd (gitlab_webhook demo_web_config demo_lib demo_running_server demo_request) =
        demo_running_server \<and>
      fst (gitlab_webhook demo_web_config demo_lib demo_running_server demo_request) =
        ([(''message'', JStr ''Review already in progress''),
          (''review_id'', JStr (py_str demo_lib (JInt 7) @ '':'' @ py_str demo_lib (JInt 42)))], 202)"
    using webhook_dedup [of demo_request
        "[(''object_kind'', JStr ''merge_request''),
          (''project'', JObj [(''id'', JInt 7), (''web_url'', JStr ''https://gitlab.com/g/p'')]),
          (''object_attributes'', JObj [(''iid'', JInt 42), (''action'', JStr ''update'')])]"
        demo_web_config "[(''iid'', JInt 42), (''action'', JStr ''update'')]" "JInt 42"
        "[(''id'', JInt 7), (''web_url'', JStr ''https://gitlab.com/g/p'')]" "JInt 7"
        demo_running_server demo_lib
        "[(''started_at'', JStr ''2024-05-01T10:00:00''), (''status'', JStr ''running''),
          (''mr_iid'', JInt 42), (''project_id'', JInt 7)]", OF _ _ _ _ _ _ _ _ _ running]
    by (simp add: demo_request_def demo_web_config_def dict_get_def)
  have "length (jobs demo_running_server) = 1"
    by (simp add: demo_running_server_eq)
  with res show ?thesis
    unfolding key in_progress_response_def by (metis prod.collapse)
qed

end
